theory Spec2Isabelle
  imports Complex_Main "HOL-Library.Multiset"
begin

section \<open>Exceptions\<close>

text \<open>
  Both modules signal failure by Python exceptions. An exception raised by a
  \<^verbatim>\<open>raise\<close> statement of the modules themselves keeps its arguments. An
  exception raised by the interpreter on a sequence index, on a missing attribute or on
  a tuple assignment with the wrong number of values has its own constructor. An
  exception that propagates out of a call into numpy, torch, scikit-learn, Keras, the
  trainer or the dataset loaders is a \<open>LibraryError\<close> carrying the name of its Python
  class.
\<close>

datatype error =
    ValueError "string list"
  | IndexError
  | AttributeError string
  | UnpackError
  | LibraryError string

section \<open>Arrays\<close>

text \<open>
  A numpy array or a torch tensor is its shape together with its elements in row-major
  order. The element type is left open: the code below moves elements around and
  appends zeros, and the arithmetic on them happens inside the libraries.
\<close>

record 'a ndarray =
  shape :: "nat list"
  data :: "'a list"

definition well_shaped :: "'a ndarray \<Rightarrow> bool" where
  "well_shaped a \<longleftrightarrow> length (data a) = prod_list (shape a)"

definition ndim :: "'a ndarray \<Rightarrow> nat" where
  "ndim a = length (shape a)"

text \<open>The sub-arrays along axis 0, each flattened: the samples of a batch.\<close>

definition samples :: "'a ndarray \<Rightarrow> 'a list list" where
  "samples a =
     (let sz = prod_list (tl (shape a))
      in map (\<lambda>i. take sz (drop (i * sz) (data a))) [0..<hd (shape a)])"

text \<open>Element \<open>(i, j, k)\<close> of a 3-dimensional array.\<close>

definition at3 :: "'a ndarray \<Rightarrow> nat \<Rightarrow> nat \<Rightarrow> nat \<Rightarrow> 'a" where
  "at3 a i j k = data a ! ((i * (shape a ! 1) + j) * (shape a ! 2) + k)"

definition np_zeros :: "nat list \<Rightarrow> ('a::zero) ndarray" where
  "np_zeros sh = \<lparr>shape = sh, data = replicate (prod_list sh) 0\<rparr>"

text \<open>
  \<^verbatim>\<open>np.append(a, b, axis=1)\<close> is \<^verbatim>\<open>np.concatenate((a, b), axis=1)\<close>. numpy refuses
  zero-dimensional arrays, then an axis outside the first array, then arrays whose
  number of dimensions differ, then arrays whose shapes differ outside the axis.
  The result is a new array; neither argument is written.
\<close>

definition np_append_axis1 :: "'a ndarray \<Rightarrow> 'a ndarray \<Rightarrow> error + 'a ndarray" where
  "np_append_axis1 a b =
     (if ndim a = 0 then Inl (LibraryError ''ValueError'')
      else if ndim a < 2 then Inl (LibraryError ''AxisError'')
      else if ndim b \<noteq> ndim a then Inl (LibraryError ''ValueError'')
      else if (shape a)[1 := 0] \<noteq> (shape b)[1 := 0] then Inl (LibraryError ''ValueError'')
      else Inr \<lparr>shape = (shape a)[1 := shape a ! 1 + shape b ! 1],
                data = concat (map2 (@) (samples a) (samples b))\<rparr>)"

text \<open>\<^verbatim>\<open>np.concatenate((a, b), axis=0)\<close>, with the checks of numpy in their order.\<close>

definition np_concatenate_axis0 :: "'a ndarray \<Rightarrow> 'a ndarray \<Rightarrow> error + 'a ndarray" where
  "np_concatenate_axis0 a b =
     (if ndim a = 0 then Inl (LibraryError ''ValueError'')
      else if ndim b \<noteq> ndim a then Inl (LibraryError ''ValueError'')
      else if tl (shape a) \<noteq> tl (shape b) then Inl (LibraryError ''ValueError'')
      else Inr \<lparr>shape = (hd (shape a) + hd (shape b)) # tl (shape a),
                data = data a @ data b\<rparr>)"

text \<open>
  The signals and the tensors computed from them hold reals, which stand for the
  floating-point numbers of numpy and torch; label arrays hold integers.
\<close>

type_synonym tensor = "real ndarray"

type_synonym labels = "int ndarray"

section \<open>Calls into the libraries and the rest of the repository\<close>

text \<open>
  Arguments handed to a library as they are written in the call. An object of a library
  class that the modules only construct and pass on is its constructor call: the class
  name, the positional arguments and the keyword arguments. A keyword that the call
  does not write is not in the list, and the library's default applies.
\<close>

datatype pyval =
    PInt int
  | PFloat real
  | PBool bool
  | PStr string
  | PName string
  | PTuple "pyval list"
  | PList "pyval list"
  | PObj string "pyval list" "(string \<times> pyval) list"

type_synonym kwargs = "(string \<times> pyval) list"

text \<open>What a dataset loader returns: \<open>(X, y, X_test, y_test)\<close>.\<close>

type_synonym loaded = "tensor \<times> labels \<times> tensor \<times> labels"

text \<open>
  A call that leaves the two modules either returns or raises; what it raises reaches
  the caller as a \<open>LibraryError\<close> with the name of the exception's class.
\<close>

fun lib :: "string + 'a \<Rightarrow> error + 'a" where
  "lib (Inl name) = Inl (LibraryError name)"
| "lib (Inr v) = Inr v"

text \<open>Sequencing of statements that may raise: the first exception ends the function.\<close>

fun and_then :: "error + 'a \<Rightarrow> ('a \<Rightarrow> error + 'b) \<Rightarrow> error + 'b" where
  "and_then (Inl e) f = Inl e"
| "and_then (Inr v) f = f v"

text \<open>
  The module \<^verbatim>\<open>datasets\<close> of the repository is not among the sources; both files import
  its two loaders, which take no argument.
\<close>

record datasets =
  load_arrhythmia_dataset :: "string + loaded"
  load_PTB_dataset :: "string + loaded"

text \<open>Whether a result is a \<open>ValueError\<close> raised by one of the two modules.\<close>

definition raises_ValueError :: "error + 'a \<Rightarrow> bool" where
  "raises_ValueError r = (case r of Inl (ValueError args) \<Rightarrow> True | _ \<Rightarrow> False)"

section \<open>autoencoder\_tree.py\<close>

subsection \<open>Module constants\<close>

definition DEBUG :: bool where "DEBUG = False"
definition UPSAMPLE :: bool where "UPSAMPLE = False"
definition VALIDATION_SPLIT :: real where "VALIDATION_SPLIT = 0.1"
definition BATCH_SIZE :: int where "BATCH_SIZE = 128"
definition EPOCHS :: int where "EPOCHS = 3"
definition EARLY_STOPPING_PATIENCE :: int where "EARLY_STOPPING_PATIENCE = 2"
definition FILTER_SIZE :: int where "FILTER_SIZE = 3"
definition SEED :: int where "SEED = 1337"

subsection \<open>\<^verbatim>\<open>AutoencoderTree._pad\<close>\<close>

text \<open>
  \<^verbatim>\<open>return np.append(X, np.zeros((X.shape[0], 1, 1)), axis=1)\<close>.
  Reading \<^verbatim>\<open>X.shape[0]\<close> of a zero-dimensional array is an index error on the
  empty shape tuple.
\<close>

definition pad :: "('a::zero) ndarray \<Rightarrow> error + 'a ndarray" where
  "pad X =
     (case shape X of
        [] \<Rightarrow> Inl IndexError
      | n # _ \<Rightarrow> np_append_axis1 X (np_zeros [n, 1, 1]))"

subsection \<open>What the class imports\<close>

text \<open>
  What the class takes from elsewhere: the loaders, \<^verbatim>\<open>get_debug_data\<close> and \<^verbatim>\<open>upsample\<close>
  of the module \<^verbatim>\<open>utils\<close> (not among the sources), \<^verbatim>\<open>train_test_split\<close> and the
  classifier of scikit-learn, and the model objects of Keras. The types \<open>'k\<close>, \<open>'f\<close> and
  \<open>'c\<close> are those of a Keras model, of the encoder cut out of it, and of the classifier.
  \<^verbatim>\<open>set_seeds\<close> seeds the random generators of the libraries, which are not modelled.
\<close>

record ('k, 'f, 'c) ae_env = datasets +
  train_test_split ::
    "tensor \<Rightarrow> labels \<Rightarrow> real \<Rightarrow> labels \<Rightarrow> string + (tensor \<times> tensor \<times> labels \<times> labels)"
  get_debug_data ::
    "tensor \<Rightarrow> labels \<Rightarrow> tensor \<Rightarrow> labels \<Rightarrow> tensor \<Rightarrow> labels
       \<Rightarrow> string + (tensor \<times> labels \<times> tensor \<times> labels \<times> tensor \<times> labels)"
  upsample :: "tensor \<Rightarrow> labels \<Rightarrow> string + (tensor \<times> labels)"
  keras_Sequential :: "pyval list \<Rightarrow> 'k"
  keras_compile :: "'k \<Rightarrow> kwargs \<Rightarrow> 'k"
  keras_fit :: "'k \<Rightarrow> tensor \<Rightarrow> tensor \<Rightarrow> kwargs \<Rightarrow> string + 'k"
  keras_encoder :: "'k \<Rightarrow> string + 'f"
  keras_predict :: "'f \<Rightarrow> tensor \<Rightarrow> string + tensor"
  ExtraTreesClassifier :: "kwargs \<Rightarrow> 'c"
  clf_fit :: "'c \<Rightarrow> tensor \<Rightarrow> labels \<Rightarrow> string + 'c"
  clf_predict :: "'c \<Rightarrow> tensor \<Rightarrow> string + labels"
  clf_predict_proba :: "'c \<Rightarrow> tensor \<Rightarrow> string + tensor"

subsection \<open>\<^verbatim>\<open>init_autoencoder\<close>\<close>

definition autoencoder_layers :: "pyval list" where
  "autoencoder_layers =
     [PObj ''Conv1D'' [PInt 8, PInt FILTER_SIZE]
        [(''strides'', PInt 2), (''activation'', PStr ''relu''), (''padding'', PStr ''same''),
         (''input_shape'', PTuple [PInt 188, PInt 1])],
      PObj ''Conv1D'' [PInt 2, PInt FILTER_SIZE]
        [(''strides'', PInt 2), (''activation'', PStr ''relu''), (''padding'', PStr ''same'')],
      PObj ''Conv1DTranspose'' [PInt 2, PInt FILTER_SIZE]
        [(''strides'', PInt 2), (''padding'', PStr ''same'')],
      PObj ''Conv1DTranspose'' [PInt 8, PInt FILTER_SIZE]
        [(''strides'', PInt 2), (''padding'', PStr ''same'')],
      PObj ''Conv1DTranspose'' [PInt 1, PInt 1]
        [(''strides'', PInt 1), (''padding'', PStr ''same'')]]"

definition init_autoencoder :: "('k, 'f, 'c) ae_env \<Rightarrow> 'k" where
  "init_autoencoder env =
     keras_compile env (keras_Sequential env autoencoder_layers)
       [(''loss'', PStr ''mse''),
        (''optimizer'', PObj ''Adam'' [PFloat 0.001] []),
        (''metrics'', PList [PStr ''mse''])]"

subsection \<open>\<^verbatim>\<open>load_data\<close>\<close>

text \<open>The attributes that \<^verbatim>\<open>load_data\<close> assigns.\<close>

record data_attrs =
  X_train :: tensor
  y_train :: labels
  X_valid :: tensor
  y_valid :: labels
  X_test :: tensor
  y_test :: labels
  X_train_full :: tensor
  y_train_full :: labels

text \<open>
  Both loaders run before the name is looked at. The four calls of \<^verbatim>\<open>_pad\<close> run from
  left to right.
\<close>

definition load_data :: "('k, 'f, 'c) ae_env \<Rightarrow> string \<Rightarrow> error + data_attrs" where
  "load_data env dataset =
     and_then (lib (load_arrhythmia_dataset env)) (\<lambda>(X_mit, y_mit, X_test_mit, y_test_mit).
     and_then (lib (load_PTB_dataset env)) (\<lambda>(X_ptb, y_ptb, X_test_ptb, y_test_ptb).
     and_then
       (if dataset = ''mithb'' then Inr (X_mit, y_mit, X_test_mit, y_test_mit)
        else if dataset = ''ptbdb'' then Inr (X_ptb, y_ptb, X_test_ptb, y_test_ptb)
        else Inl (ValueError [dataset, ''is not a valid dataset'']))
       (\<lambda>(X, y, X_test, y_test).
     and_then (pad X) (\<lambda>X.
     and_then (pad X_test) (\<lambda>X_test.
     and_then (pad X_mit) (\<lambda>X_mit.
     and_then (pad X_ptb) (\<lambda>X_ptb.
     and_then (lib (train_test_split env X y VALIDATION_SPLIT y))
       (\<lambda>(X_train, X_valid, y_train, y_valid).
     and_then
       (if DEBUG then lib (get_debug_data env X_train y_train X_valid y_valid X_test y_test)
        else Inr (X_train, y_train, X_valid, y_valid, X_test, y_test))
       (\<lambda>(X_train, y_train, X_valid, y_valid, X_test, y_test).
     and_then
       (if UPSAMPLE then lib (upsample env X_train y_train) else Inr (X_train, y_train))
       (\<lambda>(X_train, y_train).
     and_then (np_concatenate_axis0 X_mit X_ptb) (\<lambda>X_full.
     and_then (np_concatenate_axis0 y_mit y_ptb) (\<lambda>y_full.
     Inr \<lparr>X_train = X_train, y_train = y_train, X_valid = X_valid, y_valid = y_valid,
          X_test = X_test, y_test = y_test,
          X_train_full = X_full, y_train_full = y_full\<rparr>))))))))))))"

subsection \<open>The object, \<^verbatim>\<open>__init__\<close>, \<^verbatim>\<open>train\<close> and \<^verbatim>\<open>predict\<close>\<close>

text \<open>
  \<^verbatim>\<open>featurizer\<close> exists once \<^verbatim>\<open>train\<close> has run, \<^verbatim>\<open>y_pred\<close> and \<^verbatim>\<open>y_pred_proba\<close> once
  \<^verbatim>\<open>predict\<close> has; reading an attribute that does not exist is an attribute error.
  The methods return nothing and change the object, so each one returns the object.
  Of a method that raises only the exception is kept, not the assignments it had made.
\<close>

record ('k, 'f, 'c) AutoencoderTree = data_attrs +
  train_ae_on :: string
  autoencoder :: 'k
  clf :: 'c
  featurizer :: "'f option"
  y_pred :: "labels option"
  y_pred_proba :: "tensor option"

definition AutoencoderTree_init ::
  "('k, 'f, 'c) ae_env \<Rightarrow> string \<Rightarrow> string \<Rightarrow> error + ('k, 'f, 'c) AutoencoderTree" where
  "AutoencoderTree_init env dataset ae_on =
     (let ae = init_autoencoder env
      in and_then (load_data env dataset) (\<lambda>d.
         Inr \<lparr>X_train = X_train d, y_train = y_train d,
              X_valid = X_valid d, y_valid = y_valid d,
              X_test = X_test d, y_test = y_test d,
              X_train_full = X_train_full d, y_train_full = y_train_full d,
              train_ae_on = ae_on,
              autoencoder = ae,
              clf = ExtraTreesClassifier env [(''n_estimators'', PInt 100)],
              featurizer = None, y_pred = None, y_pred_proba = None\<rparr>))"

text \<open>The printed progress messages are left out.\<close>

definition train ::
  "('k, 'f, 'c) ae_env \<Rightarrow> ('k, 'f, 'c) AutoencoderTree
     \<Rightarrow> error + ('k, 'f, 'c) AutoencoderTree" where
  "train env self =
     (let X_train_ae = (if train_ae_on self = ''full'' then X_train_full self
                        else X_train self)
      in and_then (lib (keras_fit env (autoencoder self) X_train_ae X_train_ae
                          [(''batch_size'', PInt BATCH_SIZE),
                           (''shuffle'', PBool True),
                           (''epochs'', PInt EPOCHS)])) (\<lambda>fitted.
         and_then (lib (keras_encoder env fitted)) (\<lambda>feat.
         and_then (lib (keras_predict env feat (X_train self))) (\<lambda>X_feat.
         and_then (lib (clf_fit env (clf self) X_feat (y_train self))) (\<lambda>fitted_clf.
         Inr (self\<lparr>autoencoder := fitted, featurizer := Some feat, clf := fitted_clf\<rparr>))))))"

definition predict ::
  "('k, 'f, 'c) ae_env \<Rightarrow> ('k, 'f, 'c) AutoencoderTree
     \<Rightarrow> error + ('k, 'f, 'c) AutoencoderTree" where
  "predict env self =
     (case featurizer self of
        None \<Rightarrow> Inl (AttributeError ''featurizer'')
      | Some feat \<Rightarrow>
          and_then (lib (keras_predict env feat (X_test self))) (\<lambda>X_feat.
          and_then (lib (clf_predict env (clf self) X_feat)) (\<lambda>pred.
          and_then (lib (clf_predict_proba env (clf self) X_feat)) (\<lambda>proba.
          Inr (self\<lparr>y_pred := Some pred, y_pred_proba := Some proba\<rparr>)))))"

section \<open>vanilla\_cnn.py\<close>

subsection \<open>Layers and the sequential container\<close>

text \<open>
  A layer object is the constructor call that made it: \<^verbatim>\<open>nn.Conv1d(in, out, kernel_size=k)\<close>,
  \<^verbatim>\<open>nn.ReLU()\<close>, \<^verbatim>\<open>nn.Linear(in, out)\<close>. \<^verbatim>\<open>nn.Sequential\<close> keeps its
  children in an ordered dictionary: \<^verbatim>\<open>add_module\<close> overwrites the child of an
  existing name in place and appends a new name at the end. The checks that torch makes
  on the arguments of a constructor are not modelled.
\<close>

datatype module = Conv1d int int int | ReLU | Linear int int

datatype metric = Accuracy

type_synonym sequential = "(string \<times> module) list"

fun add_module :: "string \<Rightarrow> module \<Rightarrow> sequential \<Rightarrow> sequential" where
  "add_module name m [] = [(name, m)]"
| "add_module name m ((k, v) # rest) =
     (if k = name then (k, m) # rest else (k, v) # add_module name m rest)"

text \<open>The decimal digits of a natural number, as \<^verbatim>\<open>f"{i}"\<close> prints a loop index.\<close>

definition digit_char :: "nat \<Rightarrow> char" where
  "digit_char d = ''0123456789'' ! d"

fun str_nat :: "nat \<Rightarrow> string" where
  "str_nat n = (if n < 10 then [digit_char n] else str_nat (n div 10) @ [digit_char (n mod 10)])"

declare str_nat.simps [simp del]

subsection \<open>\<^verbatim>\<open>vanillaCNN.__init__\<close>\<close>

record vanillaCNN =
  net :: sequential
  no_classes :: int
  fc :: module
  accuracy :: metric

text \<open>
  One turn of \<^verbatim>\<open>for i in range(len(channels) - 1)\<close>: the convolution \<^verbatim>\<open>cnn{i}\<close>,
  then the activation \<^verbatim>\<open>act{i}\<close>. Both list reads are in range inside the loop.
\<close>

definition init_step :: "int list \<Rightarrow> int \<Rightarrow> nat \<Rightarrow> sequential \<Rightarrow> sequential" where
  "init_step channels kernel_size i seq =
     add_module (''act'' @ str_nat i) ReLU
       (add_module (''cnn'' @ str_nat i)
          (Conv1d (channels ! i) (channels ! (i + 1)) kernel_size) seq)"

definition vanillaCNN_init :: "int list \<Rightarrow> int \<Rightarrow> int \<Rightarrow> int \<Rightarrow> vanillaCNN" where
  "vanillaCNN_init channels kernel_size output_size no_cls =
     \<lparr>net = fold (init_step channels kernel_size) [0..<length channels - 1] [],
      no_classes = no_cls,
      fc = (if no_cls = 2 then Linear output_size 1 else Linear output_size no_cls),
      accuracy = Accuracy\<rparr>"

text \<open>The two children that turn \<open>i\<close> of the loop adds.\<close>

definition layer_pair :: "int list \<Rightarrow> int \<Rightarrow> nat \<Rightarrow> sequential" where
  "layer_pair channels k i =
     [(''cnn'' @ str_nat i, Conv1d (channels ! i) (channels ! (i + 1)) k),
      (''act'' @ str_nat i, ReLU)]"

subsection \<open>Tensor operations\<close>

text \<open>
  The shape operations of torch that the module calls; each fails as torch does.
\<close>

text \<open>\<^verbatim>\<open>unsqueeze(d)\<close> of a tensor with fewer than \<open>d\<close> dimensions is an index error.\<close>

definition unsqueeze :: "nat \<Rightarrow> 'a ndarray \<Rightarrow> error + 'a ndarray" where
  "unsqueeze d t =
     (if ndim t < d then Inl (LibraryError ''IndexError'')
      else Inr (t\<lparr>shape := take d (shape t) @ [1] @ drop d (shape t)\<rparr>))"

text \<open>\<^verbatim>\<open>squeeze()\<close> without an axis removes every dimension of size 1.\<close>

definition squeeze :: "'a ndarray \<Rightarrow> 'a ndarray" where
  "squeeze t = t\<lparr>shape := filter (\<lambda>n. n \<noteq> 1) (shape t)\<rparr>"

text \<open>
  \<^verbatim>\<open>view(-1, k)\<close>: the first dimension is inferred; torch refuses \<open>k = 0\<close> and a number
  of elements that \<open>k\<close> does not divide.
\<close>

definition view_rows :: "nat \<Rightarrow> 'a ndarray \<Rightarrow> error + 'a ndarray" where
  "view_rows k t =
     (let numel = prod_list (shape t)
      in if k = 0 \<or> numel mod k \<noteq> 0 then Inl (LibraryError ''RuntimeError'')
         else Inr (t\<lparr>shape := [numel div k, k]\<rparr>))"

text \<open>\<^verbatim>\<open>torch.flatten(t, start_dim=1)\<close> needs a dimension 1 to start from.\<close>

definition flatten1 :: "'a ndarray \<Rightarrow> error + 'a ndarray" where
  "flatten1 t =
     (case shape t of
        n # d # rest \<Rightarrow> Inr (t\<lparr>shape := [n, prod_list (d # rest)]\<rparr>)
      | _ \<Rightarrow> Inl (LibraryError ''IndexError''))"

text \<open>
  \<^verbatim>\<open>torch.cat(ts, 0)\<close> of tensors with at least one dimension: the list must not be
  empty and the shapes must agree outside axis 0.
\<close>

definition cat0 :: "'a ndarray list \<Rightarrow> error + 'a ndarray" where
  "cat0 ts =
     (case ts of
        [] \<Rightarrow> Inl (LibraryError ''RuntimeError'')
      | t # rest \<Rightarrow>
          if \<exists>u \<in> set ts. ndim u = 0 then Inl (LibraryError ''RuntimeError'')
          else if \<exists>u \<in> set rest. tl (shape u) \<noteq> tl (shape t)
            then Inl (LibraryError ''RuntimeError'')
          else Inr \<lparr>shape = sum_list (map (\<lambda>u. hd (shape u)) ts) # tl (shape t),
                    data = concat (map data ts)\<rparr>)"

text \<open>The logistic function, applied to every element by \<^verbatim>\<open>torch.sigmoid\<close>.\<close>

definition logistic :: "real \<Rightarrow> real" where
  "logistic v = 1 / (1 + exp (- v))"

definition torch_sigmoid :: "tensor \<Rightarrow> tensor" where
  "torch_sigmoid t = t\<lparr>data := map logistic (data t)\<rparr>"

text \<open>
  What the module leaves to torch: the forward pass of one layer with the parameter
  values it has at the time of the call, and the two loss functions.
\<close>

record torch =
  run_module :: "module \<Rightarrow> tensor \<Rightarrow> error + tensor"
  binary_cross_entropy :: "tensor \<Rightarrow> tensor \<Rightarrow> error + real"
  cross_entropy :: "tensor \<Rightarrow> tensor \<Rightarrow> error + real"

text \<open>Calling a \<^verbatim>\<open>Sequential\<close> runs its children in order; without children it returns
  its input.\<close>

fun run_net :: "torch \<Rightarrow> sequential \<Rightarrow> tensor \<Rightarrow> error + tensor" where
  "run_net fw [] x = Inr x"
| "run_net fw ((name, m) # rest) x =
     (case run_module fw m x of Inl e \<Rightarrow> Inl e | Inr y \<Rightarrow> run_net fw rest y)"

subsection \<open>\<^verbatim>\<open>forward\<close>, \<^verbatim>\<open>training_step\<close>, \<^verbatim>\<open>predict_step\<close>\<close>

text \<open>
  The caller's tensors are objects that \<^verbatim>\<open>unsqueeze_\<close> rewrites in place, so the steps
  run on a state: the tensor objects by address, and what \<^verbatim>\<open>self.log\<close> has recorded.
  A batch is the list of the addresses of its tensors.
\<close>

record state =
  tensors :: "nat \<Rightarrow> tensor"
  logged :: "(string \<times> real) list"

text \<open>
  The statements that \<^verbatim>\<open>forward\<close> (lines 45 to 49) and \<^verbatim>\<open>training_step\<close> (lines 56
  to 60) share: the layer stack, \<^verbatim>\<open>view(-1, dims[1] * dims[2])\<close>, the linear head.
  Reading \<^verbatim>\<open>dims[1]\<close> or \<^verbatim>\<open>dims[2]\<close> of a shorter shape is an index error.
\<close>

definition head_output :: "torch \<Rightarrow> vanillaCNN \<Rightarrow> tensor \<Rightarrow> error + tensor" where
  "head_output fw self x =
     (case run_net fw (net self) x of
        Inl e \<Rightarrow> Inl e
      | Inr out \<Rightarrow>
          (case shape out of
             d0 # d1 # d2 # rest \<Rightarrow>
               (case view_rows (d1 * d2) out of
                  Inl e \<Rightarrow> Inl e
                | Inr flat \<Rightarrow> run_module fw (fc self) flat)
           | _ \<Rightarrow> Inl IndexError))"

text \<open>\<^verbatim>\<open>x.unsqueeze_(1)\<close>: the tensor object at address \<open>x\<close> gets the new shape.\<close>

definition unsqueeze_inplace :: "nat \<Rightarrow> state \<Rightarrow> (error + tensor) \<times> state" where
  "unsqueeze_inplace x s =
     (case unsqueeze 1 (tensors s x) of
        Inl e \<Rightarrow> (Inl e, s)
      | Inr x1 \<Rightarrow> (Inr x1, s\<lparr>tensors := (tensors s)(x := x1)\<rparr>))"

definition forward :: "torch \<Rightarrow> vanillaCNN \<Rightarrow> nat \<Rightarrow> state \<Rightarrow> (error + tensor) \<times> state" where
  "forward fw self x s =
     (case unsqueeze_inplace x s of
        (Inl e, s1) \<Rightarrow> (Inl e, s1)
      | (Inr x1, s1) \<Rightarrow> (head_output fw self x1, s1))"

definition training_step ::
  "torch \<Rightarrow> vanillaCNN \<Rightarrow> nat list \<Rightarrow> nat \<Rightarrow> state \<Rightarrow> (error + real) \<times> state" where
  "training_step fw self batch batch_idx s =
     (case batch of
        [x, y] \<Rightarrow>
          (case unsqueeze_inplace x s of
             (Inl e, s1) \<Rightarrow> (Inl e, s1)
           | (Inr x1, s1) \<Rightarrow>
               (case head_output fw self x1 of
                  Inl e \<Rightarrow> (Inl e, s1)
                | Inr output \<Rightarrow>
                    (case (if no_classes self = 2
                           then binary_cross_entropy fw (torch_sigmoid (squeeze output))
                                  (tensors s1 y)
                           else cross_entropy fw output (tensors s1 y)) of
                       Inl e \<Rightarrow> (Inl e, s1)
                     | Inr loss \<Rightarrow>
                         (Inr loss, s1\<lparr>logged := logged s1 @ [(''train_loss'', loss)]\<rparr>))))
      | _ \<Rightarrow> (Inl UnpackError, s))"

definition predict_step ::
  "torch \<Rightarrow> vanillaCNN \<Rightarrow> nat list \<Rightarrow> nat \<Rightarrow> state \<Rightarrow> (error + tensor) \<times> state" where
  "predict_step fw self batch batch_idx s =
     (case (if length batch = 1 then Inr (batch ! 0)
            else (case batch of [x, y] \<Rightarrow> Inr x | _ \<Rightarrow> Inl UnpackError)) of
        Inl e \<Rightarrow> (Inl e, s)
      | Inr x \<Rightarrow>
          (case forward fw self x s of
             (Inl e, s1) \<Rightarrow> (Inl e, s1)
           | (Inr pred, s1) \<Rightarrow>
               (Inr (if no_classes self = 2 then torch_sigmoid pred else pred), s1)))"

subsection \<open>\<^verbatim>\<open>get_cnn_outputs\<close>\<close>

text \<open>
  \<^verbatim>\<open>DataLoader(dataset=TensorDataset(t), batch_size=b)\<close> without shuffling yields the
  rows of \<open>t\<close> along axis 0 in order, \<open>b\<close> at a time, the last batch being shorter when
  \<open>b\<close> does not divide their number; each batch is stacked into one tensor.
\<close>

definition loader_batches :: "nat \<Rightarrow> 'a ndarray \<Rightarrow> 'a ndarray list" where
  "loader_batches bsz t =
     (let n = hd (shape t); sz = prod_list (tl (shape t))
      in map (\<lambda>b. \<lparr>shape = min bsz (n - b * bsz) # tl (shape t),
                    data = take (bsz * sz) (drop (b * bsz * sz) (data t))\<rparr>)
             [0..<(n + bsz - 1) div bsz])"

text \<open>The results of the turns of a loop, up to the first one that fails.\<close>

fun collect :: "(error + 'a) list \<Rightarrow> error + 'a list" where
  "collect [] = Inr []"
| "collect (Inl e # rs) = Inl e"
| "collect (Inr v # rs) = (case collect rs of Inl e \<Rightarrow> Inl e | Inr vs \<Rightarrow> Inr (v # vs))"

text \<open>The body of the loop: \<^verbatim>\<open>torch.flatten(model.net(x[0].unsqueeze(1)), start_dim=1)\<close>.\<close>

definition batch_features :: "torch \<Rightarrow> vanillaCNN \<Rightarrow> tensor \<Rightarrow> error + tensor" where
  "batch_features fw model x =
     (case unsqueeze 1 x of
        Inl e \<Rightarrow> Inl e
      | Inr x1 \<Rightarrow>
          (case run_net fw (net model) x1 of
             Inl e \<Rightarrow> Inl e
           | Inr out \<Rightarrow> flatten1 out))"

text \<open>
  \<^verbatim>\<open>torch.tensor(X, dtype=torch.float)\<close> keeps the shape and the elements of \<open>X\<close>, and so
  does \<^verbatim>\<open>.detach().numpy()\<close> at the end. \<^verbatim>\<open>TensorDataset\<close> reads the size of axis 0, an
  index error for a tensor without dimensions.
\<close>

definition get_cnn_outputs :: "torch \<Rightarrow> vanillaCNN \<Rightarrow> tensor \<Rightarrow> error + tensor" where
  "get_cnn_outputs fw model X =
     (let t = squeeze X
      in if ndim t = 0 then Inl (LibraryError ''IndexError'')
         else (case collect (map (batch_features fw model) (loader_batches 64 t)) of
                 Inl e \<Rightarrow> Inl e
               | Inr outputs \<Rightarrow> cat0 outputs))"

subsection \<open>\<^verbatim>\<open>train_vanilla_cnn\<close>\<close>

text \<open>
  \<^verbatim>\<open>prepare_datasets\<close> (module \<^verbatim>\<open>utils\<close>) and \<^verbatim>\<open>USE_GPU\<close> (module \<^verbatim>\<open>config\<close>) are
  not among the sources either; the directory for saved models is computed from the
  location of the file; \<^verbatim>\<open>trainer.fit\<close> is the training loop of pytorch-lightning, which
  returns nothing and leaves the model trained. The type \<open>'d\<close> is that of a torch dataset.
\<close>

record 'd dataloader =
  dl_dataset :: 'd
  dl_kwargs :: kwargs

record 'd cnn_env = datasets +
  prepare_datasets ::
    "tensor \<Rightarrow> labels \<Rightarrow> tensor \<Rightarrow> labels \<Rightarrow> bool \<Rightarrow> kwargs \<Rightarrow> string + ('d \<times> 'd \<times> 'd)"
  USE_GPU :: pyval
  saved_models_dir :: string
  trainer_fit :: "pyval \<Rightarrow> vanillaCNN \<Rightarrow> 'd dataloader \<Rightarrow> 'd dataloader \<Rightarrow> string + vanillaCNN"

text \<open>\<^verbatim>\<open>channels[-1]\<close>: the last element, an index error on the empty list.\<close>

definition last_item :: "'a list \<Rightarrow> error + 'a" where
  "last_item xs = (case xs of [] \<Rightarrow> Inl IndexError | _ \<Rightarrow> Inr (last xs))"

text \<open>Lines 139 and 140: the two loaders.\<close>

definition train_loader_of :: "'d \<Rightarrow> 'd dataloader" where
  "train_loader_of train_dataset =
     \<lparr>dl_dataset = train_dataset,
      dl_kwargs = [(''batch_size'', PInt 32), (''shuffle'', PBool True)]\<rparr>"

definition val_loader_of :: "'d \<Rightarrow> 'd dataloader" where
  "val_loader_of val_dataset =
     \<lparr>dl_dataset = val_dataset, dl_kwargs = [(''batch_size'', PInt 64)]\<rparr>"

text \<open>Lines 142 to 148: the trainer.\<close>

definition make_trainer :: "'d cnn_env \<Rightarrow> int \<Rightarrow> pyval" where
  "make_trainer env max_epochs =
     PObj ''Trainer'' []
       [(''gpus'', USE_GPU env),
        (''max_epochs'', PInt max_epochs),
        (''callbacks'',
           PList [PObj ''EarlyStopping'' []
                    [(''monitor'', PStr ''val_loss''), (''mode'', PStr ''min'')]]),
        (''default_root_dir'', PStr (saved_models_dir env))]"

text \<open>
  The function returns the pair \<^verbatim>\<open>model, trainer\<close>. \<open>max_epochs\<close> is 15 when the caller
  does not give it.
\<close>

definition train_vanilla_cnn ::
  "'d cnn_env \<Rightarrow> int list \<Rightarrow> int \<Rightarrow> int \<Rightarrow> string \<Rightarrow> int \<Rightarrow> error + (vanillaCNN \<times> pyval)" where
  "train_vanilla_cnn env channels kernel_size cnn_output_size dataset max_epochs =
     and_then
       (if dataset = ''mithb'' then
          and_then (lib (load_arrhythmia_dataset env)) (\<lambda>(x, y, x_test, y_test).
          and_then (lib (prepare_datasets env x y x_test y_test True []))
            (\<lambda>(train_dataset, val_dataset, test_dataset).
          and_then (last_item channels) (\<lambda>c.
          Inr (train_dataset, val_dataset,
               vanillaCNN_init channels kernel_size (c * cnn_output_size) 5))))
        else if dataset = ''ptbdb'' then
          and_then (lib (load_PTB_dataset env)) (\<lambda>(x, y, x_test, y_test).
          and_then (lib (prepare_datasets env x y x_test y_test True
                           [(''y_dtype'', PName ''torch.float'')]))
            (\<lambda>(train_dataset, val_dataset, test_dataset).
          and_then (last_item channels) (\<lambda>c.
          Inr (train_dataset, val_dataset,
               vanillaCNN_init channels kernel_size (c * cnn_output_size) 2))))
        else Inl (ValueError [''Incorrect dataset!'']))
       (\<lambda>(train_dataset, val_dataset, model).
          let train_loader = train_loader_of train_dataset;
              val_loader = val_loader_of val_dataset;
              trainer = make_trainer env max_epochs
          in and_then (lib (trainer_fit env trainer model train_loader val_loader))
               (\<lambda>trained. Inr (trained, trainer)))"

section \<open>Example inputs\<close>

subsection \<open>An example runtime and state for the network\<close>

text \<open>
  A runtime whose layers return their input and whose losses are constants, and a state
  with a batch of two signals of length 3 at address 0 and its labels at address 1.
  They give the steps above something concrete to run on.
\<close>

definition example_torch :: torch where
  "example_torch =
     \<lparr>run_module = (\<lambda>m t. Inr t),
      binary_cross_entropy = (\<lambda>p y. Inr 1),
      cross_entropy = (\<lambda>p y. Inr 2)\<rparr>"

definition example_state :: state where
  "example_state =
     \<lparr>tensors = (\<lambda>a. if a = 0 then \<lparr>shape = [2, 3], data = [0, 0, 0, 0, 0, 0]\<rparr>
                        else \<lparr>shape = [2], data = [1, 0]\<rparr>),
      logged = []\<rparr>"

subsection \<open>Example environments\<close>

text \<open>
  Small stand-ins for what the modules import, to run the entry points on. The loaders
  return two training signals of length 2 and one test signal each. The split puts the
  first sample into the validation part and the others into the training part. The
  Keras model is the list of the keyword arguments that \<^verbatim>\<open>fit\<close> has been called with;
  the encoder and the classifier hand their input on.
\<close>

definition example_mit :: loaded where
  "example_mit =
     (\<lparr>shape = [2, 2, 1], data = [1, 2, 3, 4]\<rparr>, \<lparr>shape = [2], data = [0, 1]\<rparr>,
      \<lparr>shape = [1, 2, 1], data = [5, 6]\<rparr>, \<lparr>shape = [1], data = [0]\<rparr>)"

definition example_ptb :: loaded where
  "example_ptb =
     (\<lparr>shape = [2, 2, 1], data = [7, 8, 9, 10]\<rparr>, \<lparr>shape = [2], data = [1, 0]\<rparr>,
      \<lparr>shape = [1, 2, 1], data = [11, 12]\<rparr>, \<lparr>shape = [1], data = [1]\<rparr>)"

definition example_split ::
  "tensor \<Rightarrow> labels \<Rightarrow> real \<Rightarrow> labels \<Rightarrow> string + (tensor \<times> tensor \<times> labels \<times> labels)" where
  "example_split X y test_size stratify =
     (case shape X of
        Suc n # rest \<Rightarrow>
          Inr (\<lparr>shape = n # rest, data = drop (prod_list rest) (data X)\<rparr>,
               \<lparr>shape = 1 # rest, data = take (prod_list rest) (data X)\<rparr>,
               \<lparr>shape = [n], data = drop 1 (data y)\<rparr>,
               \<lparr>shape = [1], data = take 1 (data y)\<rparr>)
      | _ \<Rightarrow> Inl ''ValueError'')"

definition example_ae_env :: "(kwargs list, unit, unit) ae_env" where
  "example_ae_env =
     \<lparr>load_arrhythmia_dataset = Inr example_mit,
      load_PTB_dataset = Inr example_ptb,
      train_test_split = example_split,
      get_debug_data = (\<lambda>a b c d e f. Inr (a, b, c, d, e, f)),
      upsample = (\<lambda>a b. Inr (a, b)),
      keras_Sequential = (\<lambda>layers. []),
      keras_compile = (\<lambda>k kw. k),
      keras_fit = (\<lambda>k X Y kw. Inr (k @ [kw])),
      keras_encoder = (\<lambda>k. Inr ()),
      keras_predict = (\<lambda>f X. Inr X),
      ExtraTreesClassifier = (\<lambda>kw. ()),
      clf_fit = (\<lambda>c X y. Inr c),
      clf_predict = (\<lambda>c X. Inr \<lparr>shape = [hd (shape X)], data = replicate (hd (shape X)) 0\<rparr>),
      clf_predict_proba = (\<lambda>c X. Inr X)\<rparr>"

definition example_cnn_env :: "(tensor \<times> labels) cnn_env" where
  "example_cnn_env =
     \<lparr>load_arrhythmia_dataset = Inr example_mit,
      load_PTB_dataset = Inr example_ptb,
      prepare_datasets = (\<lambda>x y x_test y_test b kw. Inr ((x, y), (x, y), (x_test, y_test))),
      USE_GPU = PInt 0,
      saved_models_dir = ''saved_models'',
      trainer_fit = (\<lambda>trainer model train_loader val_loader. Inr model)\<rparr>"

text \<open>
  The object that \<^verbatim>\<open>AutoencoderTree(dataset='mithb', train_ae_on='same')\<close> builds in the
  example environment, and the same object after \<^verbatim>\<open>train\<close>.
\<close>

definition example_tree :: "(kwargs list, unit, unit) AutoencoderTree" where
  "example_tree =
     \<lparr>X_train = \<lparr>shape = [1, 3, 1], data = [3, 4, 0]\<rparr>,
      y_train = \<lparr>shape = [1], data = [1]\<rparr>,
      X_valid = \<lparr>shape = [1, 3, 1], data = [1, 2, 0]\<rparr>,
      y_valid = \<lparr>shape = [1], data = [0]\<rparr>,
      X_test = \<lparr>shape = [1, 3, 1], data = [5, 6, 0]\<rparr>,
      y_test = \<lparr>shape = [1], data = [0]\<rparr>,
      X_train_full = \<lparr>shape = [4, 3, 1], data = [1, 2, 0, 3, 4, 0, 7, 8, 0, 9, 10, 0]\<rparr>,
      y_train_full = \<lparr>shape = [4], data = [0, 1, 1, 0]\<rparr>,
      train_ae_on = ''same'',
      autoencoder = [],
      clf = (),
      featurizer = None, y_pred = None, y_pred_proba = None\<rparr>"

definition example_trained :: "(kwargs list, unit, unit) AutoencoderTree" where
  "example_trained =
     example_tree
       \<lparr>autoencoder := [[(''batch_size'', PInt 128), (''shuffle'', PBool True),
                         (''epochs'', PInt 3)]],
        featurizer := Some ()\<rparr>"

section \<open>Facts about arrays\<close>

lemma nth_concat_uniform:
  "\<lbrakk>\<forall>b \<in> set bs. length b = k; i < length bs; j < k\<rbrakk>
   \<Longrightarrow> concat bs ! (i * k + j) = bs ! i ! j"
proof (induction bs arbitrary: i)
  case Nil
  then show ?case by simp
next
  case (Cons b bs)
  show ?case
  proof (cases i)
    case 0
    with Cons.prems show ?thesis by (simp add: nth_append)
  next
    case (Suc i')
    with Cons.prems have "concat bs ! (i' * k + j) = bs ! i' ! j"
      by (intro Cons.IH) auto
    moreover have "length b = k" using Cons.prems by simp
    ultimately show ?thesis using Suc by (simp add: nth_append add.commute add.left_commute)
  qed
qed

lemma length_concat_uniform:
  "\<forall>b \<in> set bs. length b = k \<Longrightarrow> length (concat bs) = length bs * k"
  by (induction bs) auto

lemma shape_np_zeros: "shape (np_zeros sh) = sh"
  by (simp add: np_zeros_def)

lemma samples_zeros_col: "samples (np_zeros [n, 1, 1] :: ('a::zero) ndarray) = replicate n [0]"
  by (auto simp: samples_def np_zeros_def intro!: nth_equalityI)

lemma length_samples: "length (samples a) = hd (shape a)"
  by (simp add: samples_def Let_def)

lemma samples_nth_3d:
  assumes "shape X = [n, m, 1]" "length (data X) = n * m" "i < n"
  shows "samples X ! i = take m (drop (i * m) (data X))"
    and "length (samples X ! i) = m"
proof -
  show s: "samples X ! i = take m (drop (i * m) (data X))"
    using assms by (simp add: samples_def)
  have "i * m + m \<le> n * m"
  proof -
    have "Suc i * m \<le> n * m" using assms(3) by (intro mult_le_mono1) simp
    then show ?thesis by simp
  qed
  then show "length (samples X ! i) = m"
    unfolding s using assms(2) by simp
qed

lemma pad_result:
  assumes "shape X = [n, m, 1]"
  shows "pad X = Inr \<lparr>shape = [n, m + 1, 1],
                     data = concat (map2 (@) (samples X) (replicate n [0]))\<rparr>"
  using assms
  by (simp add: pad_def np_append_axis1_def ndim_def shape_np_zeros
      samples_zeros_col[unfolded One_nat_def])

section \<open>Facts about padding\<close>

text \<open>
  C8. For every 3-dimensional array \<open>X\<close> of shape \<open>(n, m, 1)\<close>, \<open>_pad X\<close> returns an array
  of shape \<open>(n, m + 1, 1)\<close>; the first \<open>m\<close> timesteps of every sample are those of \<open>X\<close>
  and the appended last timestep is zero. The result is a new array: \<open>pad\<close> is a
  function of the value of \<open>X\<close>, which it only reads.
\<close>

theorem pad_shape_and_content:
  assumes "shape X = [n, m, 1]" and "well_shaped X"
  shows "\<exists>P. pad X = Inr P \<and> shape P = [n, m + 1, 1] \<and> well_shaped P
           \<and> (\<forall>i<n. (\<forall>j<m. at3 P i j 0 = at3 X i j 0) \<and> at3 P i m 0 = 0)"
proof -
  define bs where "bs = map2 (@) (samples X) (replicate n [0::'a])"
  define P where "P = \<lparr>shape = [n, m + 1, 1], data = concat bs\<rparr>"
  have len: "length (data X) = n * m"
    using assms by (simp add: well_shaped_def)
  have lenbs: "length bs = n"
    using assms(1) by (simp add: bs_def length_samples)
  have nthbs: "bs ! i = samples X ! i @ [0]" if "i < n" for i
    using that assms(1) by (simp add: bs_def length_samples)
  have block: "length (bs ! i) = m + 1" if "i < n" for i
    using that nthbs samples_nth_3d(2)[OF assms(1) len] by simp
  have uni: "\<forall>b \<in> set bs. length b = m + 1"
    using block lenbs by (auto simp: in_set_conv_nth)
  have P: "pad X = Inr P"
    unfolding P_def bs_def by (rule pad_result[OF assms(1)])
  have wsP: "well_shaped P"
    using length_concat_uniform[OF uni] lenbs by (simp add: well_shaped_def P_def)
  have cells: "(\<forall>j<m. at3 P i j 0 = at3 X i j 0) \<and> at3 P i m 0 = 0" if i: "i < n" for i
  proof -
    have sm: "samples X ! i = take m (drop (i * m) (data X))"
      and lm: "length (samples X ! i) = m"
      using samples_nth_3d[OF assms(1) len i] by simp_all
    have inb: "i * m + m \<le> n * m"
    proof -
      have "Suc i * m \<le> n * m" using i by (intro mult_le_mono1) simp
      then show ?thesis by simp
    qed
    have "at3 P i j 0 = at3 X i j 0" if j: "j < m" for j
    proof -
      have "at3 P i j 0 = concat bs ! (i * (m + 1) + j)"
        by (simp add: at3_def P_def)
      also have "\<dots> = bs ! i ! j"
        using uni i j lenbs by (intro nth_concat_uniform) auto
      also have "\<dots> = samples X ! i ! j"
        using nthbs[OF i] lm j by (simp add: nth_append)
      also have "\<dots> = data X ! (i * m + j)"
      proof -
        have "i * m \<le> n * m" using i by (intro mult_le_mono1) simp
        then have "i * m \<le> length (data X)" using len by simp
        then show ?thesis using sm j by (simp add: nth_drop)
      qed
      also have "\<dots> = at3 X i j 0"
        using assms(1) by (simp add: at3_def)
      finally show ?thesis .
    qed
    moreover have "at3 P i m 0 = 0"
    proof -
      have "at3 P i m 0 = concat bs ! (i * (m + 1) + m)"
        by (simp add: at3_def P_def)
      also have "\<dots> = bs ! i ! m"
        using uni i lenbs by (intro nth_concat_uniform) auto
      also have "\<dots> = 0"
        using nthbs[OF i] lm by (simp add: nth_append)
      finally show ?thesis .
    qed
    ultimately show ?thesis by blast
  qed
  show ?thesis
    using P wsP cells by (intro exI[of _ P]) (simp add: P_def)
qed

theorem pad_shape_and_content_witness:
  "shape \<lparr>shape = [2, 2, 1], data = [5, 6, 7, 8 :: int]\<rparr> = [2, 2, 1]
   \<and> well_shaped \<lparr>shape = [2, 2, 1], data = [5, 6, 7, 8 :: int]\<rparr>
   \<and> pad \<lparr>shape = [2, 2, 1], data = [5, 6, 7, 8 :: int]\<rparr>
       = Inr \<lparr>shape = [2, 3, 1], data = [5, 6, 0, 7, 8, 0]\<rparr>
   \<and> at3 \<lparr>shape = [2, 3, 1], data = [5, 6, 0, 7, 8, 0 :: int]\<rparr> 1 0 0
       = at3 \<lparr>shape = [2, 2, 1], data = [5, 6, 7, 8 :: int]\<rparr> 1 0 0
   \<and> at3 \<lparr>shape = [2, 3, 1], data = [5, 6, 0, 7, 8, 0 :: int]\<rparr> 1 2 0 = 0"
proof -
  let ?X = "\<lparr>shape = [2, 2, 1], data = [5, 6, 7, 8 :: int]\<rparr>"
  let ?P = "\<lparr>shape = [2, 3, 1], data = [5, 6, 0, 7, 8, 0 :: int]\<rparr>"
  have sh: "shape ?X = [2, 2, 1]" by simp
  have ws: "well_shaped ?X" by (simp add: well_shaped_def)
  have e: "pad ?X = Inr ?P"
    by (simp add: pad_def np_append_axis1_def ndim_def np_zeros_def samples_def upt_rec)
  from pad_shape_and_content[OF sh ws] e
  have cells: "\<forall>i<2. (\<forall>j<2. at3 ?P i j 0 = at3 ?X i j 0) \<and> at3 ?P i 2 0 = 0"
    by simp
  then have "at3 ?P 1 0 0 = at3 ?X 1 0 0" and "at3 ?P 1 2 0 = 0"
    by simp_all
  with sh ws e show ?thesis by blast
qed

section \<open>Facts about the layer stack\<close>

lemma digit_inj: "a < 10 \<Longrightarrow> b < 10 \<Longrightarrow> digit_char a = digit_char b \<Longrightarrow> a = b"
proof -
  assume a: "a < 10" "b < 10" "digit_char a = digit_char b"
  have d: "distinct ''0123456789''" by simp
  show ?thesis using a nth_eq_iff_index_eq[OF d, of a b] by (simp add: digit_char_def)
qed
lemma str_nat_ne: "str_nat n \<noteq> []"
  by (subst str_nat.simps) simp
lemma str_nat_inj: "str_nat a = str_nat b \<Longrightarrow> a = b"
proof (induction a arbitrary: b rule: str_nat.induct)
  case (1 n)
  show ?case
  proof (cases "n < 10")
    case True
    show ?thesis
    proof (cases "b < 10")
      case b: True
      from "1.prems" True b have "digit_char n = digit_char b"
        by (subst (asm) str_nat.simps, subst (asm) (2) str_nat.simps) simp
      then show ?thesis using digit_inj True b by blast
    next
      case b: False
      have "str_nat n = [digit_char n]" using True by (subst str_nat.simps) simp
      moreover have "str_nat b = str_nat (b div 10) @ [digit_char (b mod 10)]"
        using b by (subst str_nat.simps) simp
      ultimately show ?thesis using "1.prems" str_nat_ne[of "b div 10"] by simp
    qed
  next
    case False
    have n: "str_nat n = str_nat (n div 10) @ [digit_char (n mod 10)]"
      using False by (subst str_nat.simps) simp
    show ?thesis
    proof (cases "b < 10")
      case b: True
      have "str_nat b = [digit_char b]" using b by (subst str_nat.simps) simp
      then show ?thesis using "1.prems" n str_nat_ne[of "n div 10"] by simp
    next
      case b: False
      have "str_nat b = str_nat (b div 10) @ [digit_char (b mod 10)]"
        using b by (subst str_nat.simps) simp
      with n "1.prems" have e: "str_nat (n div 10) = str_nat (b div 10)"
        and d: "digit_char (n mod 10) = digit_char (b mod 10)" by simp_all
      from "1.IH"[OF False e] have "n div 10 = b div 10" .
      moreover have "n mod 10 = b mod 10" using digit_inj[OF _ _ d] by simp
      ultimately show ?thesis by (metis div_mult_mod_eq)
    qed
  qed
qed

lemma add_module_fresh:
  "name \<notin> fst ` set seq \<Longrightarrow> add_module name m seq = seq @ [(name, m)]"
  by (induction seq) auto

lemma names_layer_pairs:
  "x \<in> fst ` set (concat (map (layer_pair channels k) [0..<n]))
   \<Longrightarrow> \<exists>i<n. x = ''cnn'' @ str_nat i \<or> x = ''act'' @ str_nat i"
  by (auto simp: layer_pair_def)

lemma fold_init_step:
  "fold (init_step channels k) [0..<n] [] = concat (map (layer_pair channels k) [0..<n])"
proof (induction n)
  case 0
  show ?case by simp
next
  case (Suc n)
  let ?seq = "concat (map (layer_pair channels k) [0..<n])"
  let ?conv = "(''cnn'' @ str_nat n, Conv1d (channels ! n) (channels ! (n + 1)) k)"
  have c: "''cnn'' @ str_nat n \<notin> fst ` set ?seq"
  proof
    assume "''cnn'' @ str_nat n \<in> fst ` set ?seq"
    from names_layer_pairs[OF this] obtain i where "i < n" "str_nat n = str_nat i"
      by auto
    then show False using str_nat_inj by blast
  qed
  have a: "''act'' @ str_nat n \<notin> fst ` set (?seq @ [?conv])"
  proof
    assume "''act'' @ str_nat n \<in> fst ` set (?seq @ [?conv])"
    then have "''act'' @ str_nat n \<in> fst ` set ?seq" by auto
    from names_layer_pairs[OF this] obtain i where "i < n" "str_nat n = str_nat i"
      by auto
    then show False using str_nat_inj by blast
  qed
  have "fold (init_step channels k) [0..<Suc n] [] = init_step channels k n ?seq"
    using Suc by simp
  also have "\<dots> = add_module (''act'' @ str_nat n) ReLU (?seq @ [?conv])"
    unfolding init_step_def using add_module_fresh[OF c] by simp
  also have "\<dots> = (?seq @ [?conv]) @ [(''act'' @ str_nat n, ReLU)]"
    by (rule add_module_fresh[OF a])
  also have "\<dots> = concat (map (layer_pair channels k) [0..<Suc n])"
    by (simp add: layer_pair_def)
  finally show ?case .
qed

text \<open>
  C4. The layer stack is fixed and sequential: for a channels list of length \<open>n \<ge> 1\<close> and
  any kernel size \<open>k\<close>, the constructor builds exactly \<open>2 * (n - 1)\<close> children in order;
  child \<open>2 * i\<close> is the convolution \<^verbatim>\<open>cnn{i}\<close> from \<open>channels[i]\<close> to \<open>channels[i + 1]\<close>
  with kernel size \<open>k\<close>, and child \<open>2 * i + 1\<close> is the activation \<^verbatim>\<open>act{i}\<close>.
\<close>

theorem net_layout:
  assumes "length channels = n" and "1 \<le> n"
  shows "length (net (vanillaCNN_init channels k output_size nc)) = 2 * (n - 1)
       \<and> (\<forall>i<n - 1.
             net (vanillaCNN_init channels k output_size nc) ! (2 * i)
               = (''cnn'' @ str_nat i, Conv1d (channels ! i) (channels ! (i + 1)) k)
           \<and> net (vanillaCNN_init channels k output_size nc) ! (2 * i + 1)
               = (''act'' @ str_nat i, ReLU))"
proof -
  let ?bs = "map (layer_pair channels k) [0..<n - 1]"
  have net: "net (vanillaCNN_init channels k output_size nc) = concat ?bs"
    using assms(1) by (simp add: vanillaCNN_init_def fold_init_step)
  have uni: "\<forall>b \<in> set ?bs. length b = 2"
    by (auto simp: layer_pair_def)
  have len: "length (concat ?bs) = 2 * (n - 1)"
    using length_concat_uniform[OF uni] by simp
  have cell: "concat ?bs ! (i * 2 + j) = layer_pair channels k i ! j" if "i < n - 1" "j < 2" for i j
    using nth_concat_uniform[OF uni, of i j] that by simp
  have "concat ?bs ! (2 * i) = (''cnn'' @ str_nat i, Conv1d (channels ! i) (channels ! (i + 1)) k)
      \<and> concat ?bs ! (2 * i + 1) = (''act'' @ str_nat i, ReLU)" if i: "i < n - 1" for i
    using cell[OF i, of 0] cell[OF i, of 1] by (simp add: layer_pair_def mult.commute)
  with net len show ?thesis by simp
qed

theorem net_layout_witness:
  "length [1, 4, 8 :: int] = 3 \<and> (1::nat) \<le> 3
   \<and> length (net (vanillaCNN_init [1, 4, 8] 3 10 5)) = 4
   \<and> net (vanillaCNN_init [1, 4, 8] 3 10 5) ! 0 = (''cnn0'', Conv1d 1 4 3)
   \<and> net (vanillaCNN_init [1, 4, 8] 3 10 5) ! 1 = (''act0'', ReLU)
   \<and> net (vanillaCNN_init [1, 4, 8] 3 10 5) ! 2 = (''cnn1'', Conv1d 4 8 3)
   \<and> net (vanillaCNN_init [1, 4, 8] 3 10 5) ! 3 = (''act1'', ReLU)"
proof -
  let ?N = "net (vanillaCNN_init [1, 4, 8] 3 10 5)"
  have h: "length [1, 4, 8 :: int] = 3" "(1::nat) \<le> 3" by simp_all
  note t = net_layout[OF h, of 3 10 5]
  have s: "str_nat 0 = ''0''" "str_nat 1 = ''1''"
    by (simp_all add: str_nat.simps digit_char_def)
  from t have len: "length ?N = 4" by simp
  from t have all: "i < 2 \<Longrightarrow> ?N ! (2 * i) = (''cnn'' @ str_nat i, Conv1d ([1, 4, 8] ! i) ([1, 4, 8] ! (i + 1)) 3)
           \<and> ?N ! (2 * i + 1) = (''act'' @ str_nat i, ReLU)" for i
    by simp
  from all[of 0] s have a0: "?N ! 0 = (''cnn0'', Conv1d 1 4 3)" "?N ! 1 = (''act0'', ReLU)"
    by simp_all
  from all[of 1] s have a1: "?N ! 2 = (''cnn1'', Conv1d 4 8 3)" "?N ! 3 = (''act1'', ReLU)"
    by simp_all
  show ?thesis by (intro conjI h len a0 a1)
qed

section \<open>Facts about the steps of the network\<close>

lemma logistic_range: "0 \<le> logistic v \<and> logistic v \<le> 1"
proof -
  have e: "0 < exp (- v)" by (rule exp_gt_zero)
  have pos: "0 < 1 + exp (- v)" by (rule add_pos_pos[OF zero_less_one e])
  have "1 \<le> 1 + exp (- v)" using less_imp_le[OF e] by (rule le_add_same_cancel1[THEN iffD2])
  then have "1 / (1 + exp (- v)) \<le> 1"
    using pos by (simp add: divide_le_eq)
  moreover have "0 \<le> 1 / (1 + exp (- v))"
    using pos by simp
  ultimately show ?thesis by (simp add: logistic_def)
qed

lemma unsqueeze_inplace_frame:
  "unsqueeze_inplace x s = (r, s1) \<Longrightarrow>
     logged s1 = logged s \<and> (\<forall>a. a \<noteq> x \<longrightarrow> tensors s1 a = tensors s a)"
  by (auto simp: unsqueeze_inplace_def split: sum.splits)

lemma unsqueeze_inplace_ok:
  assumes "1 \<le> ndim (tensors s x)"
  shows "unsqueeze_inplace x s =
     (Inr ((tensors s x)\<lparr>shape := hd (shape (tensors s x)) # 1 # tl (shape (tensors s x))\<rparr>),
      s\<lparr>tensors := (tensors s)(x := (tensors s x)\<lparr>shape := hd (shape (tensors s x)) # 1 # tl (shape (tensors s x))\<rparr>)\<rparr>)"
proof -
  obtain n rest where sh: "shape (tensors s x) = n # rest"
    using assms by (cases "shape (tensors s x)") (auto simp: ndim_def)
  show ?thesis
    by (simp add: unsqueeze_inplace_def unsqueeze_def ndim_def sh)
qed

lemma example_unsqueeze:
  "unsqueeze_inplace 0 example_state =
     (Inr \<lparr>shape = [2, 1, 3], data = [0, 0, 0, 0, 0, 0]\<rparr>,
      example_state\<lparr>tensors := (tensors example_state)
                        (0 := \<lparr>shape = [2, 1, 3], data = [0, 0, 0, 0, 0, 0]\<rparr>)\<rparr>)"
  by (simp add: unsqueeze_inplace_def unsqueeze_def ndim_def example_state_def)

lemma example_head_output:
  "head_output example_torch (vanillaCNN_init [1] 3 3 nc)
     \<lparr>shape = [2, 1, 3], data = [0, 0, 0, 0, 0, 0]\<rparr>
   = Inr \<lparr>shape = [2, 3], data = [0, 0, 0, 0, 0, 0]\<rparr>"
  by (simp add: head_output_def vanillaCNN_init_def view_rows_def example_torch_def)

lemma example_forward:
  "forward example_torch (vanillaCNN_init [1] 3 3 nc) 0 example_state =
     (Inr \<lparr>shape = [2, 3], data = [0, 0, 0, 0, 0, 0]\<rparr>,
      example_state\<lparr>tensors := (tensors example_state)
                        (0 := \<lparr>shape = [2, 1, 3], data = [0, 0, 0, 0, 0, 0]\<rparr>)\<rparr>)"
  by (simp only: forward_def example_unsqueeze example_head_output prod.case sum.case)

text \<open>
  C9. The binary case is special-cased consistently. With \<open>no_classes = 2\<close> the linear head
  has output dimension 1, \<^verbatim>\<open>predict_step\<close> returns the sigmoid of what \<^verbatim>\<open>forward\<close>
  returns on the first tensor of the batch, whose values lie in \<open>[0, 1]\<close>, and the
  training loss is the binary cross-entropy of the sigmoid of the squeezed output. With
  any other \<open>no_classes\<close> the head has output dimension \<open>no_classes\<close>, \<^verbatim>\<open>predict_step\<close>
  returns what \<^verbatim>\<open>forward\<close> returns, and the training loss is the cross-entropy of the
  output. This holds for a batch of one tensor and for a batch of two, and what
  \<^verbatim>\<open>predict_step\<close> wraps or returns is the output of the linear head that the loss is
  computed from. A batch of another length cannot be unpacked, and a failure of
  \<^verbatim>\<open>unsqueeze_\<close> or of the layers is the result of the training step.
\<close>

theorem binary_case_consistent:
  fixes fw :: torch
  shows "(nc = 2 \<longrightarrow>
            fc (vanillaCNN_init channels k output_size nc) = Linear output_size 1
          \<and> predict_step fw (vanillaCNN_init channels k output_size nc) [x] i s
              = (case forward fw (vanillaCNN_init channels k output_size nc) x s of
                   (Inl e, s1) \<Rightarrow> (Inl e, s1)
                 | (Inr pred, s1) \<Rightarrow> (Inr (torch_sigmoid pred), s1))
          \<and> predict_step fw (vanillaCNN_init channels k output_size nc) [x, y] i s
              = (case forward fw (vanillaCNN_init channels k output_size nc) x s of
                   (Inl e, s1) \<Rightarrow> (Inl e, s1)
                 | (Inr pred, s1) \<Rightarrow> (Inr (torch_sigmoid pred), s1))
          \<and> (\<forall>v \<in> set (data (torch_sigmoid pred)). 0 \<le> v \<and> v \<le> 1)
          \<and> (unsqueeze_inplace x s = (Inr x1, s1)
              \<and> head_output fw (vanillaCNN_init channels k output_size nc) x1 = Inr output
              \<longrightarrow> fst (training_step fw (vanillaCNN_init channels k output_size nc) [x, y] i s)
                  = binary_cross_entropy fw (torch_sigmoid (squeeze output)) (tensors s1 y))
          \<and> (unsqueeze_inplace x s = (Inr x1, s1)
              \<and> head_output fw (vanillaCNN_init channels k output_size nc) x1 = Inr output
              \<longrightarrow> predict_step fw (vanillaCNN_init channels k output_size nc) [x] i s
                    = (Inr (torch_sigmoid output), s1)
                \<and> predict_step fw (vanillaCNN_init channels k output_size nc) [x, y] i s
                    = (Inr (torch_sigmoid output), s1)))
       \<and> (nc \<noteq> 2 \<longrightarrow>
            fc (vanillaCNN_init channels k output_size nc) = Linear output_size nc
          \<and> predict_step fw (vanillaCNN_init channels k output_size nc) [x] i s
              = forward fw (vanillaCNN_init channels k output_size nc) x s
          \<and> predict_step fw (vanillaCNN_init channels k output_size nc) [x, y] i s
              = forward fw (vanillaCNN_init channels k output_size nc) x s
          \<and> (unsqueeze_inplace x s = (Inr x1, s1)
              \<and> head_output fw (vanillaCNN_init channels k output_size nc) x1 = Inr output
              \<longrightarrow> fst (training_step fw (vanillaCNN_init channels k output_size nc) [x, y] i s)
                  = cross_entropy fw output (tensors s1 y))
          \<and> (unsqueeze_inplace x s = (Inr x1, s1)
              \<and> head_output fw (vanillaCNN_init channels k output_size nc) x1 = Inr output
              \<longrightarrow> predict_step fw (vanillaCNN_init channels k output_size nc) [x] i s
                    = (Inr output, s1)
                \<and> predict_step fw (vanillaCNN_init channels k output_size nc) [x, y] i s
                    = (Inr output, s1)))
       \<and> (length batch \<noteq> 1 \<and> length batch \<noteq> 2
          \<longrightarrow> predict_step fw (vanillaCNN_init channels k output_size nc) batch i s
                = (Inl UnpackError, s))
       \<and> (length batch \<noteq> 2
          \<longrightarrow> training_step fw (vanillaCNN_init channels k output_size nc) batch i s
                = (Inl UnpackError, s))
       \<and> (unsqueeze_inplace x s = (Inl e, s1)
          \<longrightarrow> fst (training_step fw (vanillaCNN_init channels k output_size nc) [x, y] i s)
                = Inl e)
       \<and> (unsqueeze_inplace x s = (Inr x1, s1)
           \<and> head_output fw (vanillaCNN_init channels k output_size nc) x1 = Inl e
          \<longrightarrow> fst (training_step fw (vanillaCNN_init channels k output_size nc) [x, y] i s)
                = Inl e)"
proof -
  define M where "M = vanillaCNN_init channels k output_size nc"
  let ?W = "\<lambda>r. (case r of (Inl e, s1) \<Rightarrow> (Inl e, s1)
                         | (Inr pred, s1) \<Rightarrow> (Inr (torch_sigmoid pred), s1))"
  have nc: "no_classes M = nc" by (simp add: M_def vanillaCNN_init_def)
  have sig: "\<forall>v \<in> set (data (torch_sigmoid pred)). 0 \<le> v \<and> v \<le> 1"
    using logistic_range by (auto simp: torch_sigmoid_def)
  have fc2: "nc = 2 \<longrightarrow> fc M = Linear output_size 1"
    and fcn: "nc \<noteq> 2 \<longrightarrow> fc M = Linear output_size nc"
    by (simp_all add: M_def vanillaCNN_init_def)
  have p1: "nc = 2 \<longrightarrow> predict_step fw M [x] i s = ?W (forward fw M x s)"
    by (simp add: predict_step_def nc split: prod.splits sum.splits)
  have p2: "nc = 2 \<longrightarrow> predict_step fw M [x, y] i s = ?W (forward fw M x s)"
    by (simp add: predict_step_def nc split: prod.splits sum.splits)
  have q1: "nc \<noteq> 2 \<longrightarrow> predict_step fw M [x] i s = forward fw M x s"
    by (simp add: predict_step_def nc split: prod.splits sum.splits)
  have q2: "nc \<noteq> 2 \<longrightarrow> predict_step fw M [x, y] i s = forward fw M x s"
    by (simp add: predict_step_def nc split: prod.splits sum.splits)
  have t2: "nc = 2 \<longrightarrow> (unsqueeze_inplace x s = (Inr x1, s1) \<and> head_output fw M x1 = Inr output
       \<longrightarrow> fst (training_step fw M [x, y] i s)
                  = binary_cross_entropy fw (torch_sigmoid (squeeze output)) (tensors s1 y))"
    by (simp add: training_step_def nc split: sum.splits)
  have tn: "nc \<noteq> 2 \<longrightarrow> (unsqueeze_inplace x s = (Inr x1, s1) \<and> head_output fw M x1 = Inr output
       \<longrightarrow> fst (training_step fw M [x, y] i s)
                  = cross_entropy fw output (tensors s1 y))"
    by (simp add: training_step_def nc split: sum.splits)
  have r2: "nc = 2 \<longrightarrow> (unsqueeze_inplace x s = (Inr x1, s1) \<and> head_output fw M x1 = Inr output
       \<longrightarrow> predict_step fw M [x] i s = (Inr (torch_sigmoid output), s1)
         \<and> predict_step fw M [x, y] i s = (Inr (torch_sigmoid output), s1))"
    by (simp add: predict_step_def forward_def nc)
  have rn: "nc \<noteq> 2 \<longrightarrow> (unsqueeze_inplace x s = (Inr x1, s1) \<and> head_output fw M x1 = Inr output
       \<longrightarrow> predict_step fw M [x] i s = (Inr output, s1)
         \<and> predict_step fw M [x, y] i s = (Inr output, s1))"
    by (simp add: predict_step_def forward_def nc)
  have u1: "length batch \<noteq> 1 \<and> length batch \<noteq> 2
          \<longrightarrow> predict_step fw M batch i s = (Inl UnpackError, s)"
    by (auto simp: predict_step_def split: list.splits)
  have u2: "length batch \<noteq> 2 \<longrightarrow> training_step fw M batch i s = (Inl UnpackError, s)"
    by (auto simp: training_step_def split: list.splits)
  have f1: "unsqueeze_inplace x s = (Inl e, s1)
          \<longrightarrow> fst (training_step fw M [x, y] i s) = Inl e"
    by (simp add: training_step_def)
  have f2: "unsqueeze_inplace x s = (Inr x1, s1) \<and> head_output fw M x1 = Inl e
          \<longrightarrow> fst (training_step fw M [x, y] i s) = Inl e"
    by (simp add: training_step_def)
  from fc2 p1 p2 sig t2 r2 have A: "nc = 2 \<longrightarrow>
            fc M = Linear output_size 1
          \<and> predict_step fw M [x] i s = ?W (forward fw M x s)
          \<and> predict_step fw M [x, y] i s = ?W (forward fw M x s)
          \<and> (\<forall>v \<in> set (data (torch_sigmoid pred)). 0 \<le> v \<and> v \<le> 1)
          \<and> (unsqueeze_inplace x s = (Inr x1, s1) \<and> head_output fw M x1 = Inr output
              \<longrightarrow> fst (training_step fw M [x, y] i s)
                  = binary_cross_entropy fw (torch_sigmoid (squeeze output)) (tensors s1 y))
          \<and> (unsqueeze_inplace x s = (Inr x1, s1) \<and> head_output fw M x1 = Inr output
              \<longrightarrow> predict_step fw M [x] i s = (Inr (torch_sigmoid output), s1)
                \<and> predict_step fw M [x, y] i s = (Inr (torch_sigmoid output), s1))"
    by blast
  from fcn q1 q2 tn rn have B: "nc \<noteq> 2 \<longrightarrow>
            fc M = Linear output_size nc
          \<and> predict_step fw M [x] i s = forward fw M x s
          \<and> predict_step fw M [x, y] i s = forward fw M x s
          \<and> (unsqueeze_inplace x s = (Inr x1, s1) \<and> head_output fw M x1 = Inr output
              \<longrightarrow> fst (training_step fw M [x, y] i s)
                  = cross_entropy fw output (tensors s1 y))
          \<and> (unsqueeze_inplace x s = (Inr x1, s1) \<and> head_output fw M x1 = Inr output
              \<longrightarrow> predict_step fw M [x] i s = (Inr output, s1)
                \<and> predict_step fw M [x, y] i s = (Inr output, s1))"
    by blast
  show ?thesis
    unfolding M_def[symmetric]
    apply (rule conjI[OF A])
    apply (rule conjI[OF B])
    apply (rule conjI[OF u1])
    apply (rule conjI[OF u2])
    apply (rule conjI[OF f1])
    apply (rule f2)
    done
qed

theorem binary_case_consistent_witness:
  "fc (vanillaCNN_init [1] 3 3 2) = Linear 3 1
   \<and> predict_step example_torch (vanillaCNN_init [1] 3 3 2) [0] 0 example_state =
       (Inr (torch_sigmoid \<lparr>shape = [2, 3], data = [0, 0, 0, 0, 0, 0]\<rparr>),
        example_state\<lparr>tensors := (tensors example_state)
                          (0 := \<lparr>shape = [2, 1, 3], data = [0, 0, 0, 0, 0, 0]\<rparr>)\<rparr>)
   \<and> predict_step example_torch (vanillaCNN_init [1] 3 3 2) [0, 1] 0 example_state =
       (Inr (torch_sigmoid \<lparr>shape = [2, 3], data = [0, 0, 0, 0, 0, 0]\<rparr>),
        example_state\<lparr>tensors := (tensors example_state)
                          (0 := \<lparr>shape = [2, 1, 3], data = [0, 0, 0, 0, 0, 0]\<rparr>)\<rparr>)
   \<and> 0 \<le> logistic 0 \<and> logistic 0 \<le> 1
   \<and> fst (training_step example_torch (vanillaCNN_init [1] 3 3 2) [0, 1] 0 example_state)
       = Inr 1
   \<and> fc (vanillaCNN_init [1] 3 3 5) = Linear 3 5
   \<and> predict_step example_torch (vanillaCNN_init [1] 3 3 5) [0] 0 example_state =
       (Inr \<lparr>shape = [2, 3], data = [0, 0, 0, 0, 0, 0]\<rparr>,
        example_state\<lparr>tensors := (tensors example_state)
                          (0 := \<lparr>shape = [2, 1, 3], data = [0, 0, 0, 0, 0, 0]\<rparr>)\<rparr>)
   \<and> predict_step example_torch (vanillaCNN_init [1] 3 3 5) [0, 1] 0 example_state =
       (Inr \<lparr>shape = [2, 3], data = [0, 0, 0, 0, 0, 0]\<rparr>,
        example_state\<lparr>tensors := (tensors example_state)
                          (0 := \<lparr>shape = [2, 1, 3], data = [0, 0, 0, 0, 0, 0]\<rparr>)\<rparr>)
   \<and> fst (training_step example_torch (vanillaCNN_init [1] 3 3 5) [0, 1] 0 example_state)
       = Inr 2
   \<and> predict_step example_torch (vanillaCNN_init [1] 3 3 2) [] 0 example_state
       = (Inl UnpackError, example_state)
   \<and> training_step example_torch (vanillaCNN_init [1] 3 3 2) [0] 0 example_state
       = (Inl UnpackError, example_state)"
proof -
  let ?x1 = "\<lparr>shape = [2, 1, 3], data = [0, 0, 0, 0, 0, 0 :: real]\<rparr>"
  let ?out = "\<lparr>shape = [2, 3], data = [0, 0, 0, 0, 0, 0 :: real]\<rparr>"
  let ?s1 = "example_state\<lparr>tensors := (tensors example_state)(0 := ?x1)\<rparr>"
  note two = binary_case_consistent[where nc = 2 and channels = "[1]" and k = 3
      and output_size = 3 and fw = example_torch and x = 0 and y = 1 and i = 0
      and s = example_state and pred = ?out and ?x1.0 = ?x1 and ?s1.0 = ?s1
      and ?output = ?out and batch = "[]"]
  note five = binary_case_consistent[where nc = 5 and channels = "[1]" and k = 3
      and output_size = 3 and fw = example_torch and x = 0 and y = 1 and i = 0
      and s = example_state and pred = ?out and ?x1.0 = ?x1 and ?s1.0 = ?s1
      and ?output = ?out and batch = "[0]"]
  have bce: "binary_cross_entropy example_torch p y = Inr 1"
    and ce: "cross_entropy example_torch p y = Inr 2" for p y
    by (simp_all add: example_torch_def)
  have a: "fc (vanillaCNN_init [1] 3 3 2) = Linear 3 1"
    using two by simp
  have b: "predict_step example_torch (vanillaCNN_init [1] 3 3 2) [0] 0 example_state =
       (Inr (torch_sigmoid ?out), ?s1)"
    "predict_step example_torch (vanillaCNN_init [1] 3 3 2) [0, 1] 0 example_state =
       (Inr (torch_sigmoid ?out), ?s1)"
    using two by (simp_all add: example_forward)
  have c: "0 \<le> logistic 0" "logistic 0 \<le> 1"
    using two by (simp_all add: torch_sigmoid_def)
  have d: "fst (training_step example_torch (vanillaCNN_init [1] 3 3 2) [0, 1] 0 example_state)
       = Inr 1"
    using two example_unsqueeze example_head_output[of 2] by (simp add: bce)
  have e: "fc (vanillaCNN_init [1] 3 3 5) = Linear 3 5"
    using five by simp
  have f: "predict_step example_torch (vanillaCNN_init [1] 3 3 5) [0] 0 example_state =
       (Inr ?out, ?s1)"
    "predict_step example_torch (vanillaCNN_init [1] 3 3 5) [0, 1] 0 example_state =
       (Inr ?out, ?s1)"
    using five by (simp_all add: example_forward)
  have g: "fst (training_step example_torch (vanillaCNN_init [1] 3 3 5) [0, 1] 0 example_state)
       = Inr 2"
    using five example_unsqueeze example_head_output[of 5] by (simp add: ce)
  have h: "predict_step example_torch (vanillaCNN_init [1] 3 3 2) [] 0 example_state
       = (Inl UnpackError, example_state)"
    using two by simp
  have j: "training_step example_torch (vanillaCNN_init [1] 3 3 2) [0] 0 example_state
       = (Inl UnpackError, example_state)"
    using binary_case_consistent[where nc = 2 and channels = "[1]" and k = 3
      and output_size = 3 and fw = example_torch and i = 0
      and s = example_state and batch = "[0]"] by simp
  show ?thesis by (intro conjI a b c d e f g h j)
qed

text \<open>
  C10. \<^verbatim>\<open>forward\<close> and \<^verbatim>\<open>training_step\<close> change their input in place: after the
  call, whether it returned or failed in a later statement, the caller's tensor \<open>x\<close> (a
  batch, so with at least one dimension) has a new dimension of size 1 at axis 1 and
  is no longer the tensor that was passed.
\<close>

theorem input_mutated_in_place:
  assumes "1 \<le> ndim (tensors s x)"
  shows "tensors (snd (forward fw self x s)) x
           = (tensors s x)\<lparr>shape := hd (shape (tensors s x)) # 1 # tl (shape (tensors s x))\<rparr>
       \<and> tensors (snd (training_step fw self [x, y] i s)) x
           = (tensors s x)\<lparr>shape := hd (shape (tensors s x)) # 1 # tl (shape (tensors s x))\<rparr>
       \<and> tensors (snd (forward fw self x s)) x \<noteq> tensors s x
       \<and> tensors (snd (training_step fw self [x, y] i s)) x \<noteq> tensors s x"
proof -
  let ?t = "tensors s x"
  let ?t' = "?t\<lparr>shape := hd (shape ?t) # 1 # tl (shape ?t)\<rparr>"
  note u = unsqueeze_inplace_ok[OF assms]
  have f: "tensors (snd (forward fw self x s)) x = ?t'"
    by (simp add: forward_def u)
  have t: "tensors (snd (training_step fw self [x, y] i s)) x = ?t'"
    by (simp add: training_step_def u split: sum.splits)
  have "length (shape ?t') = Suc (length (shape ?t))"
    using assms by (cases "shape ?t") (auto simp: ndim_def)
  then have "?t' \<noteq> ?t" by (metis n_not_Suc_n)
  with f t show ?thesis by simp
qed

theorem input_mutated_in_place_witness:
  "1 \<le> ndim (tensors example_state 0)
   \<and> tensors example_state 0 = \<lparr>shape = [2, 3], data = [0, 0, 0, 0, 0, 0]\<rparr>
   \<and> tensors (snd (forward example_torch (vanillaCNN_init [1] 3 3 5) 0 example_state)) 0
       = \<lparr>shape = [2, 1, 3], data = [0, 0, 0, 0, 0, 0]\<rparr>
   \<and> tensors (snd (training_step example_torch (vanillaCNN_init [1] 3 3 5) [0, 1] 0
                     example_state)) 0
       = \<lparr>shape = [2, 1, 3], data = [0, 0, 0, 0, 0, 0]\<rparr>"
proof -
  have h: "1 \<le> ndim (tensors example_state 0)"
    by (simp add: example_state_def ndim_def)
  have t: "tensors example_state 0 = \<lparr>shape = [2, 3], data = [0, 0, 0, 0, 0, 0]\<rparr>"
    by (simp add: example_state_def)
  show ?thesis
    using h input_mutated_in_place[OF h, of example_torch "vanillaCNN_init [1] 3 3 5" 1 0]
    by (simp add: t)
qed

section \<open>Facts about the entry points\<close>

lemma not_VE_lib: "\<not> raises_ValueError (lib r)"
  by (cases r) (simp_all add: raises_ValueError_def)

lemma not_VE_Inr: "\<not> raises_ValueError (Inr v)"
  by (simp add: raises_ValueError_def)

lemma not_VE_pad: "\<not> raises_ValueError (pad X)"
  by (simp add: raises_ValueError_def pad_def np_append_axis1_def split: list.splits)

lemma not_VE_concat0: "\<not> raises_ValueError (np_concatenate_axis0 a b)"
  by (simp add: raises_ValueError_def np_concatenate_axis0_def)

lemma not_VE_last_item: "\<not> raises_ValueError (last_item xs)"
  by (simp add: raises_ValueError_def last_item_def split: list.splits)

lemma VE_and_then:
  "raises_ValueError (and_then m f)
     \<longleftrightarrow> raises_ValueError m \<or> (\<exists>v. m = Inr v \<and> raises_ValueError (f v))"
  by (cases m) (simp_all add: raises_ValueError_def)

lemma VE_Inl: "raises_ValueError (Inl e) \<longleftrightarrow> (\<exists>args. e = ValueError args)"
  by (cases e) (simp_all add: raises_ValueError_def)

lemmas not_VE = not_VE_lib not_VE_Inr not_VE_pad not_VE_concat0 not_VE_last_item

lemma load_data_VE:
  assumes "load_arrhythmia_dataset env = Inr a" "load_PTB_dataset env = Inr b"
  shows "raises_ValueError (load_data env dataset) \<longleftrightarrow> dataset \<noteq> ''mithb'' \<and> dataset \<noteq> ''ptbdb''"
proof (cases "dataset = ''mithb'' \<or> dataset = ''ptbdb''")
  case True
  then have "\<not> raises_ValueError (load_data env dataset)"
    unfolding load_data_def using assms
    by (auto simp: VE_and_then not_VE DEBUG_def UPSAMPLE_def split: prod.splits)
  with True show ?thesis by auto
next
  case False
  then have "load_data env dataset = Inl (ValueError [dataset, ''is not a valid dataset''])"
    unfolding load_data_def using assms by (simp split: prod.splits)
  with False show ?thesis by (simp add: raises_ValueError_def)
qed

lemma init_VE:
  "raises_ValueError (AutoencoderTree_init env dataset ae_on)
     \<longleftrightarrow> raises_ValueError (load_data env dataset)"
  by (simp add: AutoencoderTree_init_def VE_and_then not_VE)

lemma cnn_VE:
  "raises_ValueError (train_vanilla_cnn env channels k out dataset max_epochs)
     \<longleftrightarrow> dataset \<noteq> ''mithb'' \<and> dataset \<noteq> ''ptbdb''"
proof (cases "dataset = ''mithb'' \<or> dataset = ''ptbdb''")
  case True
  then have "\<not> raises_ValueError (train_vanilla_cnn env channels k out dataset max_epochs)"
    unfolding train_vanilla_cnn_def
    by (auto simp: VE_and_then not_VE Let_def split: prod.splits)
  with True show ?thesis by auto
next
  case False
  then have "train_vanilla_cnn env channels k out dataset max_epochs
               = Inl (ValueError [''Incorrect dataset!''])"
    unfolding train_vanilla_cnn_def by simp
  with False show ?thesis by (simp add: raises_ValueError_def)
qed

text \<open>
  C1. When the two loaders return, \<^verbatim>\<open>load_data\<close>, and with it the construction of an
  \<^verbatim>\<open>AutoencoderTree\<close>, raises a \<open>ValueError\<close> exactly when the dataset name is neither
  \<^verbatim>\<open>mithb\<close> nor \<^verbatim>\<open>ptbdb\<close>; so does \<^verbatim>\<open>train_vanilla_cnn\<close>, which looks at the name
  before it loads anything. For the two valid names no \<open>ValueError\<close> of the modules is
  raised.
\<close>

theorem dataset_name_validation:
  fixes env :: "('k, 'f, 'c) ae_env" and cenv :: "'d cnn_env"
  assumes "load_arrhythmia_dataset env = Inr a" and "load_PTB_dataset env = Inr b"
  shows "(raises_ValueError (load_data env dataset)
            \<longleftrightarrow> dataset \<noteq> ''mithb'' \<and> dataset \<noteq> ''ptbdb'')
       \<and> (raises_ValueError (AutoencoderTree_init env dataset ae_on)
            \<longleftrightarrow> dataset \<noteq> ''mithb'' \<and> dataset \<noteq> ''ptbdb'')
       \<and> (raises_ValueError (train_vanilla_cnn cenv channels k out dataset max_epochs)
            \<longleftrightarrow> dataset \<noteq> ''mithb'' \<and> dataset \<noteq> ''ptbdb'')"
  by (simp only: load_data_VE[OF assms] init_VE cnn_VE simp_thms)

lemma example_loaders:
  "load_arrhythmia_dataset example_ae_env = Inr example_mit"
  "load_PTB_dataset example_ae_env = Inr example_ptb"
  by (simp_all add: example_ae_env_def)

theorem dataset_name_validation_witness:
  "load_arrhythmia_dataset example_ae_env = Inr example_mit
   \<and> load_PTB_dataset example_ae_env = Inr example_ptb
   \<and> raises_ValueError (load_data example_ae_env ''mitbih'')
   \<and> raises_ValueError (AutoencoderTree_init example_ae_env ''mitbih'' ''full'')
   \<and> raises_ValueError (train_vanilla_cnn example_cnn_env [1, 4] 3 185 ''mitbih'' 15)
   \<and> \<not> raises_ValueError (load_data example_ae_env ''mithb'')
   \<and> \<not> raises_ValueError (AutoencoderTree_init example_ae_env ''ptbdb'' ''full'')
   \<and> \<not> raises_ValueError (train_vanilla_cnn example_cnn_env [1, 4] 3 185 ''ptbdb'' 15)"
proof -
  note bad = dataset_name_validation[OF example_loaders,
      of "''mitbih''" "''full''" example_cnn_env "[1, 4]" 3 185 15]
  note mit = dataset_name_validation[OF example_loaders,
      of "''mithb''" "''full''" example_cnn_env "[1, 4]" 3 185 15]
  note ptb = dataset_name_validation[OF example_loaders,
      of "''ptbdb''" "''full''" example_cnn_env "[1, 4]" 3 185 15]
  have b: "raises_ValueError (load_data example_ae_env ''mitbih'')"
    "raises_ValueError (AutoencoderTree_init example_ae_env ''mitbih'' ''full'')"
    "raises_ValueError (train_vanilla_cnn example_cnn_env [1, 4] 3 185 ''mitbih'' 15)"
    using bad by simp_all
  have m: "\<not> raises_ValueError (load_data example_ae_env ''mithb'')"
    using mit by simp
  have p: "\<not> raises_ValueError (AutoencoderTree_init example_ae_env ''ptbdb'' ''full'')"
    "\<not> raises_ValueError (train_vanilla_cnn example_cnn_env [1, 4] 3 185 ''ptbdb'' 15)"
    using ptb by simp_all
  show ?thesis
    by (intro conjI example_loaders b m p)
qed

lemma and_then_eq_Inr: "and_then m f = Inr r \<longleftrightarrow> (\<exists>v. m = Inr v \<and> f v = Inr r)"
  by (cases m) simp_all

lemma lib_eq_Inr: "lib r = Inr v \<longleftrightarrow> r = Inr v"
  by (cases r) simp_all

lemma load_data_returns:
  assumes mit: "load_arrhythmia_dataset env = Inr (X_mit, y_mit, Xt_mit, yt_mit)"
    and ptb: "load_PTB_dataset env = Inr (X_ptb, y_ptb, Xt_ptb, yt_ptb)"
    and valid: "dataset = ''mithb'' \<or> dataset = ''ptbdb''"
    and chosen: "(X, y, Xt, yt) = (if dataset = ''mithb'' then (X_mit, y_mit, Xt_mit, yt_mit)
                                   else (X_ptb, y_ptb, Xt_ptb, yt_ptb))"
    and pads: "pad X = Inr P" "pad Xt = Inr Pt" "pad X_mit = Inr P_mit" "pad X_ptb = Inr P_ptb"
    and full: "np_concatenate_axis0 P_mit P_ptb = Inr X_full"
              "np_concatenate_axis0 y_mit y_ptb = Inr y_full"
    and split: "train_test_split env P y VALIDATION_SPLIT y = Inr (a, b, c, e)"
  shows "load_data env dataset =
           Inr \<lparr>X_train = a, y_train = c, X_valid = b, y_valid = e,
                X_test = Pt, y_test = yt, X_train_full = X_full, y_train_full = y_full\<rparr>"
proof (cases "dataset = ''mithb''")
  case True
  with chosen have "X = X_mit" "y = y_mit" "Xt = Xt_mit" "yt = yt_mit" by simp_all
  with True mit ptb pads full split show ?thesis
    by (simp add: load_data_def DEBUG_def UPSAMPLE_def)
next
  case False
  with valid have p: "dataset = ''ptbdb''" by simp
  from False chosen have "X = X_ptb" "y = y_ptb" "Xt = Xt_ptb" "yt = yt_ptb" by simp_all
  with p mit ptb pads full split show ?thesis
    by (simp add: load_data_def DEBUG_def UPSAMPLE_def)
qed

lemma concat0_3d:
  assumes "shape A = [n1, m, 1]" "shape B = [n2, m, 1]"
  shows "np_concatenate_axis0 A B = Inr \<lparr>shape = [n1 + n2, m, 1], data = data A @ data B\<rparr>"
  using assms by (simp add: np_concatenate_axis0_def ndim_def)

lemma concat0_1d:
  assumes "shape A = [n1]" "shape B = [n2]"
  shows "np_concatenate_axis0 A B = Inr \<lparr>shape = [n1 + n2], data = data A @ data B\<rparr>"
  using assms by (simp add: np_concatenate_axis0_def ndim_def)

lemma load_data_split_fails:
  assumes mit: "load_arrhythmia_dataset env = Inr (X_mit, y_mit, Xt_mit, yt_mit)"
    and ptb: "load_PTB_dataset env = Inr (X_ptb, y_ptb, Xt_ptb, yt_ptb)"
    and valid: "dataset = ''mithb'' \<or> dataset = ''ptbdb''"
    and chosen: "(X, y, Xt, yt) = (if dataset = ''mithb'' then (X_mit, y_mit, Xt_mit, yt_mit)
                                   else (X_ptb, y_ptb, Xt_ptb, yt_ptb))"
    and pads: "pad X = Inr P" "pad Xt = Inr Pt" "pad X_mit = Inr P_mit" "pad X_ptb = Inr P_ptb"
    and split: "train_test_split env P y VALIDATION_SPLIT y = Inl name"
  shows "load_data env dataset = Inl (LibraryError name)"
proof (cases "dataset = ''mithb''")
  case True
  with chosen have "X = X_mit" "y = y_mit" "Xt = Xt_mit" "yt = yt_mit" by simp_all
  with True mit ptb pads split show ?thesis
    by (simp add: load_data_def)
next
  case False
  with valid have p: "dataset = ''ptbdb''" by simp
  from False chosen have "X = X_ptb" "y = y_ptb" "Xt = Xt_ptb" "yt = yt_ptb" by simp_all
  with p mit ptb pads split show ?thesis
    by (simp add: load_data_def)
qed

text \<open>
  C5. Dataset selection. The loaders return signal arrays of shape \<open>(n, m, 1)\<close> with a
  common length \<open>m\<close> and one-dimensional label arrays. Then all four arrays are padded,
  and for \<^verbatim>\<open>mithb\<close> (for \<^verbatim>\<open>ptbdb\<close>) \<^verbatim>\<open>load_data\<close> returns whenever
  \<^verbatim>\<open>train_test_split\<close> returns for the padded training array of the arrhythmia loader
  (of the PTB loader): it stores the two parts of the split as training and validation
  arrays, the loader's padded test array as \<open>X_test\<close> and its test labels as \<open>y_test\<close>.
  The split partitioning what it is given, the stored training and validation arrays
  together hold exactly the samples of the padded training array. When the split
  raises, so does \<^verbatim>\<open>load_data\<close>.
\<close>

theorem dataset_selection:
  assumes mit: "load_arrhythmia_dataset env = Inr (X_mit, y_mit, Xt_mit, yt_mit)"
    and ptb: "load_PTB_dataset env = Inr (X_ptb, y_ptb, Xt_ptb, yt_ptb)"
    and shapes: "shape X_mit = [n1, m, 1]" "shape Xt_mit = [k1, m, 1]"
                "shape X_ptb = [n2, m, 1]" "shape Xt_ptb = [k2, m, 1]"
                "shape y_mit = [l1]" "shape y_ptb = [l2]"
    and split: "\<forall>X y a b c e. train_test_split env X y VALIDATION_SPLIT y = Inr (a, b, c, e)
                  \<longrightarrow> mset (samples a) + mset (samples b) = mset (samples X)"
  shows "\<exists>P_mit Pt_mit P_ptb Pt_ptb.
           pad X_mit = Inr P_mit \<and> pad Xt_mit = Inr Pt_mit
         \<and> pad X_ptb = Inr P_ptb \<and> pad Xt_ptb = Inr Pt_ptb
         \<and> (\<forall>a b c e. train_test_split env P_mit y_mit VALIDATION_SPLIT y_mit = Inr (a, b, c, e)
              \<longrightarrow> load_data env ''mithb'' =
                    Inr \<lparr>X_train = a, y_train = c, X_valid = b, y_valid = e,
                         X_test = Pt_mit, y_test = yt_mit,
                         X_train_full = \<lparr>shape = [n1 + n2, m + 1, 1],
                                         data = data P_mit @ data P_ptb\<rparr>,
                         y_train_full = \<lparr>shape = [l1 + l2], data = data y_mit @ data y_ptb\<rparr>\<rparr>
                \<and> mset (samples a) + mset (samples b) = mset (samples P_mit))
         \<and> (\<forall>a b c e. train_test_split env P_ptb y_ptb VALIDATION_SPLIT y_ptb = Inr (a, b, c, e)
              \<longrightarrow> load_data env ''ptbdb'' =
                    Inr \<lparr>X_train = a, y_train = c, X_valid = b, y_valid = e,
                         X_test = Pt_ptb, y_test = yt_ptb,
                         X_train_full = \<lparr>shape = [n1 + n2, m + 1, 1],
                                         data = data P_mit @ data P_ptb\<rparr>,
                         y_train_full = \<lparr>shape = [l1 + l2], data = data y_mit @ data y_ptb\<rparr>\<rparr>
                \<and> mset (samples a) + mset (samples b) = mset (samples P_ptb))
         \<and> (\<forall>name. train_test_split env P_mit y_mit VALIDATION_SPLIT y_mit = Inl name
              \<longrightarrow> load_data env ''mithb'' = Inl (LibraryError name))
         \<and> (\<forall>name. train_test_split env P_ptb y_ptb VALIDATION_SPLIT y_ptb = Inl name
              \<longrightarrow> load_data env ''ptbdb'' = Inl (LibraryError name))"
proof -
  define P_mit where "P_mit = \<lparr>shape = [n1, m + 1, 1],
      data = concat (map2 (@) (samples X_mit) (replicate n1 [0::real]))\<rparr>"
  define Pt_mit where "Pt_mit = \<lparr>shape = [k1, m + 1, 1],
      data = concat (map2 (@) (samples Xt_mit) (replicate k1 [0::real]))\<rparr>"
  define P_ptb where "P_ptb = \<lparr>shape = [n2, m + 1, 1],
      data = concat (map2 (@) (samples X_ptb) (replicate n2 [0::real]))\<rparr>"
  define Pt_ptb where "Pt_ptb = \<lparr>shape = [k2, m + 1, 1],
      data = concat (map2 (@) (samples Xt_ptb) (replicate k2 [0::real]))\<rparr>"
  have pads: "pad X_mit = Inr P_mit" "pad Xt_mit = Inr Pt_mit"
    "pad X_ptb = Inr P_ptb" "pad Xt_ptb = Inr Pt_ptb"
    unfolding P_mit_def Pt_mit_def P_ptb_def Pt_ptb_def
    by (rule pad_result, rule shapes)+
  have fullX: "np_concatenate_axis0 P_mit P_ptb =
      Inr \<lparr>shape = [n1 + n2, m + 1, 1], data = data P_mit @ data P_ptb\<rparr>"
    by (rule concat0_3d) (simp_all add: P_mit_def P_ptb_def)
  have fully: "np_concatenate_axis0 y_mit y_ptb =
      Inr \<lparr>shape = [l1 + l2], data = data y_mit @ data y_ptb\<rparr>"
    by (rule concat0_1d) (rule shapes)+
  have m_ok: "load_data env ''mithb'' =
                    Inr \<lparr>X_train = a, y_train = c, X_valid = b, y_valid = e,
                         X_test = Pt_mit, y_test = yt_mit,
                         X_train_full = \<lparr>shape = [n1 + n2, m + 1, 1],
                                         data = data P_mit @ data P_ptb\<rparr>,
                         y_train_full = \<lparr>shape = [l1 + l2], data = data y_mit @ data y_ptb\<rparr>\<rparr>
                \<and> mset (samples a) + mset (samples b) = mset (samples P_mit)"
    if s: "train_test_split env P_mit y_mit VALIDATION_SPLIT y_mit = Inr (a, b, c, e)"
    for a b c e
  proof -
    have "load_data env ''mithb'' =
                    Inr \<lparr>X_train = a, y_train = c, X_valid = b, y_valid = e,
                         X_test = Pt_mit, y_test = yt_mit,
                         X_train_full = \<lparr>shape = [n1 + n2, m + 1, 1],
                                         data = data P_mit @ data P_ptb\<rparr>,
                         y_train_full = \<lparr>shape = [l1 + l2], data = data y_mit @ data y_ptb\<rparr>\<rparr>"
      by (rule load_data_returns[OF mit ptb _ _ pads(1,2,1,3) fullX fully s]) simp_all
    moreover from split s have "mset (samples a) + mset (samples b) = mset (samples P_mit)"
      by blast
    ultimately show ?thesis by simp
  qed
  have p_ok: "load_data env ''ptbdb'' =
                    Inr \<lparr>X_train = a, y_train = c, X_valid = b, y_valid = e,
                         X_test = Pt_ptb, y_test = yt_ptb,
                         X_train_full = \<lparr>shape = [n1 + n2, m + 1, 1],
                                         data = data P_mit @ data P_ptb\<rparr>,
                         y_train_full = \<lparr>shape = [l1 + l2], data = data y_mit @ data y_ptb\<rparr>\<rparr>
                \<and> mset (samples a) + mset (samples b) = mset (samples P_ptb)"
    if s: "train_test_split env P_ptb y_ptb VALIDATION_SPLIT y_ptb = Inr (a, b, c, e)"
    for a b c e
  proof -
    have "load_data env ''ptbdb'' =
                    Inr \<lparr>X_train = a, y_train = c, X_valid = b, y_valid = e,
                         X_test = Pt_ptb, y_test = yt_ptb,
                         X_train_full = \<lparr>shape = [n1 + n2, m + 1, 1],
                                         data = data P_mit @ data P_ptb\<rparr>,
                         y_train_full = \<lparr>shape = [l1 + l2], data = data y_mit @ data y_ptb\<rparr>\<rparr>"
      by (rule load_data_returns[OF mit ptb _ _ pads(3,4,1,3) fullX fully s]) simp_all
    moreover from split s have "mset (samples a) + mset (samples b) = mset (samples P_ptb)"
      by blast
    ultimately show ?thesis by simp
  qed
  have m_bad: "load_data env ''mithb'' = Inl (LibraryError name)"
    if s: "train_test_split env P_mit y_mit VALIDATION_SPLIT y_mit = Inl name" for name
    by (rule load_data_split_fails[OF mit ptb _ _ pads(1,2,1,3) s]) simp_all
  have p_bad: "load_data env ''ptbdb'' = Inl (LibraryError name)"
    if s: "train_test_split env P_ptb y_ptb VALIDATION_SPLIT y_ptb = Inl name" for name
    by (rule load_data_split_fails[OF mit ptb _ _ pads(3,4,1,3) s]) simp_all
  show ?thesis
    apply (rule exI[of _ P_mit], rule exI[of _ Pt_mit])
    apply (rule exI[of _ P_ptb], rule exI[of _ Pt_ptb])
    using pads m_ok p_ok m_bad p_bad by blast
qed

lemma samples_Cons:
  "samples \<lparr>shape = Suc n # rest, data = xs\<rparr>
     = take (prod_list rest) xs
       # samples \<lparr>shape = n # rest, data = drop (prod_list rest) xs\<rparr>"
proof -
  have "[0..<Suc n] = 0 # map Suc [0..<n]"
    by (simp add: upt_conv_Cons map_Suc_upt del: upt_Suc)
  then show ?thesis
    by (simp add: samples_def Let_def o_def add.commute del: upt_Suc)
qed

lemma example_split_partition:
  assumes "example_split X y ts st = Inr (a, b, c, e)"
  shows "mset (samples a) + mset (samples b) = mset (samples X)"
proof (cases "shape X")
  case Nil
  with assms show ?thesis by (simp add: example_split_def)
next
  case (Cons n rest)
  show ?thesis
  proof (cases n)
    case 0
    with Cons assms show ?thesis by (simp add: example_split_def)
  next
    case (Suc n')
    have X: "X = \<lparr>shape = Suc n' # rest, data = data X\<rparr>"
      using Cons Suc by simp
    from assms Cons Suc have a: "a = \<lparr>shape = n' # rest, data = drop (prod_list rest) (data X)\<rparr>"
      and b: "b = \<lparr>shape = 1 # rest, data = take (prod_list rest) (data X)\<rparr>"
      by (simp_all add: example_split_def)
    have sb: "samples b = [take (prod_list rest) (data X)]"
      unfolding b by (simp add: samples_def)
    have "samples X = take (prod_list rest) (data X) # samples a"
      unfolding a by (subst X) (rule samples_Cons)
    with sb show ?thesis by simp
  qed
qed

lemma example_load_mithb:
  "load_data example_ae_env ''mithb'' =
     Inr \<lparr>X_train = \<lparr>shape = [1, 3, 1], data = [3, 4, 0]\<rparr>,
          y_train = \<lparr>shape = [1], data = [1]\<rparr>,
          X_valid = \<lparr>shape = [1, 3, 1], data = [1, 2, 0]\<rparr>,
          y_valid = \<lparr>shape = [1], data = [0]\<rparr>,
          X_test = \<lparr>shape = [1, 3, 1], data = [5, 6, 0]\<rparr>,
          y_test = \<lparr>shape = [1], data = [0]\<rparr>,
          X_train_full = \<lparr>shape = [4, 3, 1], data = [1, 2, 0, 3, 4, 0, 7, 8, 0, 9, 10, 0]\<rparr>,
          y_train_full = \<lparr>shape = [4], data = [0, 1, 1, 0]\<rparr>\<rparr>"
  by (simp add: load_data_def example_ae_env_def example_mit_def example_ptb_def
      pad_def np_append_axis1_def ndim_def np_zeros_def samples_def upt_rec
      example_split_def np_concatenate_axis0_def DEBUG_def UPSAMPLE_def VALIDATION_SPLIT_def)

lemma example_load_ptbdb:
  "load_data example_ae_env ''ptbdb'' =
     Inr \<lparr>X_train = \<lparr>shape = [1, 3, 1], data = [9, 10, 0]\<rparr>,
          y_train = \<lparr>shape = [1], data = [0]\<rparr>,
          X_valid = \<lparr>shape = [1, 3, 1], data = [7, 8, 0]\<rparr>,
          y_valid = \<lparr>shape = [1], data = [1]\<rparr>,
          X_test = \<lparr>shape = [1, 3, 1], data = [11, 12, 0]\<rparr>,
          y_test = \<lparr>shape = [1], data = [1]\<rparr>,
          X_train_full = \<lparr>shape = [4, 3, 1], data = [1, 2, 0, 3, 4, 0, 7, 8, 0, 9, 10, 0]\<rparr>,
          y_train_full = \<lparr>shape = [4], data = [0, 1, 1, 0]\<rparr>\<rparr>"
  by (simp add: load_data_def example_ae_env_def example_mit_def example_ptb_def
      pad_def np_append_axis1_def ndim_def np_zeros_def samples_def upt_rec
      example_split_def np_concatenate_axis0_def DEBUG_def UPSAMPLE_def VALIDATION_SPLIT_def)

lemma example_split_env:
  "train_test_split example_ae_env = example_split"
  by (simp add: example_ae_env_def)

lemma example_loaded:
  "load_arrhythmia_dataset example_ae_env =
     Inr (\<lparr>shape = [2, 2, 1], data = [1, 2, 3, 4]\<rparr>, \<lparr>shape = [2], data = [0, 1]\<rparr>,
          \<lparr>shape = [1, 2, 1], data = [5, 6]\<rparr>, \<lparr>shape = [1], data = [0]\<rparr>)"
  "load_PTB_dataset example_ae_env =
     Inr (\<lparr>shape = [2, 2, 1], data = [7, 8, 9, 10]\<rparr>, \<lparr>shape = [2], data = [1, 0]\<rparr>,
          \<lparr>shape = [1, 2, 1], data = [11, 12]\<rparr>, \<lparr>shape = [1], data = [1]\<rparr>)"
  by (simp_all add: example_ae_env_def example_mit_def example_ptb_def)

lemma example_pads:
  "pad \<lparr>shape = [2, 2, 1], data = [1, 2, 3, 4 :: real]\<rparr>
     = Inr \<lparr>shape = [2, 3, 1], data = [1, 2, 0, 3, 4, 0]\<rparr>"
  "pad \<lparr>shape = [1, 2, 1], data = [5, 6 :: real]\<rparr> = Inr \<lparr>shape = [1, 3, 1], data = [5, 6, 0]\<rparr>"
  "pad \<lparr>shape = [2, 2, 1], data = [7, 8, 9, 10 :: real]\<rparr>
     = Inr \<lparr>shape = [2, 3, 1], data = [7, 8, 0, 9, 10, 0]\<rparr>"
  "pad \<lparr>shape = [1, 2, 1], data = [11, 12 :: real]\<rparr>
     = Inr \<lparr>shape = [1, 3, 1], data = [11, 12, 0]\<rparr>"
  by (simp_all add: pad_def np_append_axis1_def ndim_def np_zeros_def samples_def upt_rec)

lemma example_splits:
  "train_test_split example_ae_env \<lparr>shape = [2, 3, 1], data = [1, 2, 0, 3, 4, 0]\<rparr>
     \<lparr>shape = [2], data = [0, 1]\<rparr> VALIDATION_SPLIT \<lparr>shape = [2], data = [0, 1]\<rparr>
   = Inr (\<lparr>shape = [1, 3, 1], data = [3, 4, 0]\<rparr>, \<lparr>shape = [1, 3, 1], data = [1, 2, 0]\<rparr>,
          \<lparr>shape = [1], data = [1]\<rparr>, \<lparr>shape = [1], data = [0]\<rparr>)"
  "train_test_split example_ae_env \<lparr>shape = [2, 3, 1], data = [7, 8, 0, 9, 10, 0]\<rparr>
     \<lparr>shape = [2], data = [1, 0]\<rparr> VALIDATION_SPLIT \<lparr>shape = [2], data = [1, 0]\<rparr>
   = Inr (\<lparr>shape = [1, 3, 1], data = [9, 10, 0]\<rparr>, \<lparr>shape = [1, 3, 1], data = [7, 8, 0]\<rparr>,
          \<lparr>shape = [1], data = [0]\<rparr>, \<lparr>shape = [1], data = [1]\<rparr>)"
  by (simp_all add: example_ae_env_def example_split_def numeral_2_eq_2)

theorem dataset_selection_witness:
  "load_data example_ae_env ''mithb'' =
     Inr \<lparr>X_train = \<lparr>shape = [1, 3, 1], data = [3, 4, 0]\<rparr>,
          y_train = \<lparr>shape = [1], data = [1]\<rparr>,
          X_valid = \<lparr>shape = [1, 3, 1], data = [1, 2, 0]\<rparr>,
          y_valid = \<lparr>shape = [1], data = [0]\<rparr>,
          X_test = \<lparr>shape = [1, 3, 1], data = [5, 6, 0]\<rparr>,
          y_test = \<lparr>shape = [1], data = [0]\<rparr>,
          X_train_full = \<lparr>shape = [4, 3, 1], data = [1, 2, 0, 3, 4, 0, 7, 8, 0, 9, 10, 0]\<rparr>,
          y_train_full = \<lparr>shape = [4], data = [0, 1, 1, 0]\<rparr>\<rparr>
   \<and> mset (samples \<lparr>shape = [1, 3, 1], data = [3, 4, 0 :: real]\<rparr>)
         + mset (samples \<lparr>shape = [1, 3, 1], data = [1, 2, 0]\<rparr>)
       = mset (samples \<lparr>shape = [2, 3, 1], data = [1, 2, 0, 3, 4, 0]\<rparr>)
   \<and> load_data example_ae_env ''ptbdb'' =
     Inr \<lparr>X_train = \<lparr>shape = [1, 3, 1], data = [9, 10, 0]\<rparr>,
          y_train = \<lparr>shape = [1], data = [0]\<rparr>,
          X_valid = \<lparr>shape = [1, 3, 1], data = [7, 8, 0]\<rparr>,
          y_valid = \<lparr>shape = [1], data = [1]\<rparr>,
          X_test = \<lparr>shape = [1, 3, 1], data = [11, 12, 0]\<rparr>,
          y_test = \<lparr>shape = [1], data = [1]\<rparr>,
          X_train_full = \<lparr>shape = [4, 3, 1], data = [1, 2, 0, 3, 4, 0, 7, 8, 0, 9, 10, 0]\<rparr>,
          y_train_full = \<lparr>shape = [4], data = [0, 1, 1, 0]\<rparr>\<rparr>
   \<and> mset (samples \<lparr>shape = [1, 3, 1], data = [9, 10, 0 :: real]\<rparr>)
         + mset (samples \<lparr>shape = [1, 3, 1], data = [7, 8, 0]\<rparr>)
       = mset (samples \<lparr>shape = [2, 3, 1], data = [7, 8, 0, 9, 10, 0]\<rparr>)"
proof -
  have split: "\<forall>X y a b c e.
      train_test_split example_ae_env X y VALIDATION_SPLIT y = Inr (a, b, c, e)
      \<longrightarrow> mset (samples a) + mset (samples b) = mset (samples X)"
    unfolding example_split_env using example_split_partition by blast
  have shapes:
    "shape \<lparr>shape = [2, 2, 1], data = [1, 2, 3, 4 :: real]\<rparr> = [2, 2, 1]"
    "shape \<lparr>shape = [1, 2, 1], data = [5, 6 :: real]\<rparr> = [1, 2, 1]"
    "shape \<lparr>shape = [2, 2, 1], data = [7, 8, 9, 10 :: real]\<rparr> = [2, 2, 1]"
    "shape \<lparr>shape = [1, 2, 1], data = [11, 12 :: real]\<rparr> = [1, 2, 1]"
    "shape \<lparr>shape = [2], data = [0, 1 :: int]\<rparr> = [2]"
    "shape \<lparr>shape = [2], data = [1, 0 :: int]\<rparr> = [2]"
    by simp_all
  from dataset_selection[OF example_loaded shapes split]
  obtain P_mit Pt_mit P_ptb Pt_ptb where
    pads: "pad \<lparr>shape = [2, 2, 1], data = [1, 2, 3, 4 :: real]\<rparr> = Inr P_mit"
          "pad \<lparr>shape = [1, 2, 1], data = [5, 6 :: real]\<rparr> = Inr Pt_mit"
          "pad \<lparr>shape = [2, 2, 1], data = [7, 8, 9, 10 :: real]\<rparr> = Inr P_ptb"
          "pad \<lparr>shape = [1, 2, 1], data = [11, 12 :: real]\<rparr> = Inr Pt_ptb"
    and m: "\<And>a b c e. train_test_split example_ae_env P_mit \<lparr>shape = [2], data = [0, 1]\<rparr>
                 VALIDATION_SPLIT \<lparr>shape = [2], data = [0, 1]\<rparr> = Inr (a, b, c, e)
              \<Longrightarrow> load_data example_ae_env ''mithb'' =
                    Inr \<lparr>X_train = a, y_train = c, X_valid = b, y_valid = e,
                         X_test = Pt_mit, y_test = \<lparr>shape = [1], data = [0]\<rparr>,
                         X_train_full = \<lparr>shape = [2 + 2, 2 + 1, 1],
                                         data = data P_mit @ data P_ptb\<rparr>,
                         y_train_full = \<lparr>shape = [2 + 2], data = [0, 1] @ [1, 0]\<rparr>\<rparr>
                \<and> mset (samples a) + mset (samples b) = mset (samples P_mit)"
    and p: "\<And>a b c e. train_test_split example_ae_env P_ptb \<lparr>shape = [2], data = [1, 0]\<rparr>
                 VALIDATION_SPLIT \<lparr>shape = [2], data = [1, 0]\<rparr> = Inr (a, b, c, e)
              \<Longrightarrow> load_data example_ae_env ''ptbdb'' =
                    Inr \<lparr>X_train = a, y_train = c, X_valid = b, y_valid = e,
                         X_test = Pt_ptb, y_test = \<lparr>shape = [1], data = [1]\<rparr>,
                         X_train_full = \<lparr>shape = [2 + 2, 2 + 1, 1],
                                         data = data P_mit @ data P_ptb\<rparr>,
                         y_train_full = \<lparr>shape = [2 + 2], data = [0, 1] @ [1, 0]\<rparr>\<rparr>
                \<and> mset (samples a) + mset (samples b) = mset (samples P_ptb)"
    by (simp only: ndarray.simps) blast
  from pads example_pads have P:
    "P_mit = \<lparr>shape = [2, 3, 1], data = [1, 2, 0, 3, 4, 0]\<rparr>"
    "Pt_mit = \<lparr>shape = [1, 3, 1], data = [5, 6, 0]\<rparr>"
    "P_ptb = \<lparr>shape = [2, 3, 1], data = [7, 8, 0, 9, 10, 0]\<rparr>"
    "Pt_ptb = \<lparr>shape = [1, 3, 1], data = [11, 12, 0]\<rparr>"
    by simp_all
  from m[OF example_splits(1)[folded P]] have M:
    "load_data example_ae_env ''mithb'' =
     Inr \<lparr>X_train = \<lparr>shape = [1, 3, 1], data = [3, 4, 0]\<rparr>,
          y_train = \<lparr>shape = [1], data = [1]\<rparr>,
          X_valid = \<lparr>shape = [1, 3, 1], data = [1, 2, 0]\<rparr>,
          y_valid = \<lparr>shape = [1], data = [0]\<rparr>,
          X_test = \<lparr>shape = [1, 3, 1], data = [5, 6, 0]\<rparr>,
          y_test = \<lparr>shape = [1], data = [0]\<rparr>,
          X_train_full = \<lparr>shape = [4, 3, 1], data = [1, 2, 0, 3, 4, 0, 7, 8, 0, 9, 10, 0]\<rparr>,
          y_train_full = \<lparr>shape = [4], data = [0, 1, 1, 0]\<rparr>\<rparr>"
    "mset (samples \<lparr>shape = [1, 3, 1], data = [3, 4, 0 :: real]\<rparr>)
         + mset (samples \<lparr>shape = [1, 3, 1], data = [1, 2, 0]\<rparr>)
       = mset (samples \<lparr>shape = [2, 3, 1], data = [1, 2, 0, 3, 4, 0]\<rparr>)"
    by (simp_all add: P)
  from p[OF example_splits(2)[folded P]] have Q:
    "load_data example_ae_env ''ptbdb'' =
     Inr \<lparr>X_train = \<lparr>shape = [1, 3, 1], data = [9, 10, 0]\<rparr>,
          y_train = \<lparr>shape = [1], data = [0]\<rparr>,
          X_valid = \<lparr>shape = [1, 3, 1], data = [7, 8, 0]\<rparr>,
          y_valid = \<lparr>shape = [1], data = [1]\<rparr>,
          X_test = \<lparr>shape = [1, 3, 1], data = [11, 12, 0]\<rparr>,
          y_test = \<lparr>shape = [1], data = [1]\<rparr>,
          X_train_full = \<lparr>shape = [4, 3, 1], data = [1, 2, 0, 3, 4, 0, 7, 8, 0, 9, 10, 0]\<rparr>,
          y_train_full = \<lparr>shape = [4], data = [0, 1, 1, 0]\<rparr>\<rparr>"
    "mset (samples \<lparr>shape = [1, 3, 1], data = [9, 10, 0 :: real]\<rparr>)
         + mset (samples \<lparr>shape = [1, 3, 1], data = [7, 8, 0]\<rparr>)
       = mset (samples \<lparr>shape = [2, 3, 1], data = [7, 8, 0, 9, 10, 0]\<rparr>)"
    by (simp_all add: P)
  show ?thesis by (intro conjI M Q)
qed

section \<open>Facts about feature extraction and training\<close>

text \<open>
  C6. \<^verbatim>\<open>get_cnn_outputs\<close> is to return one row per sample of \<open>X\<close>, the rows being those
  of the layer stack applied to all of \<open>X\<close>. On an array with a single sample it does not:
  \<^verbatim>\<open>squeeze()\<close> removes the batch axis together with the channel axis, the loader
  then takes the three timesteps of the signal for three samples, and the result has
  three rows. The model has no convolution (\<open>channels = [1]\<close>), so the layer stack
  returns its input and the result does not depend on the runtime.
\<close>

theorem single_sample_rows:
  "get_cnn_outputs fw (vanillaCNN_init [1] 3 3 5) \<lparr>shape = [1, 3, 1], data = [5, 6, 7]\<rparr>
     = Inr \<lparr>shape = [3, 1], data = [5, 6, 7]\<rparr>"
  by (simp add: get_cnn_outputs_def squeeze_def ndim_def loader_batches_def batch_features_def
      unsqueeze_def vanillaCNN_init_def flatten1_def cat0_def)

lemma last_item_nonempty: "channels \<noteq> [] \<Longrightarrow> last_item channels = Inr (last channels)"
  by (cases channels) (simp_all add: last_item_def)

lemma train_vanilla_cnn_mithb:
  assumes "load_arrhythmia_dataset env = Inr (x, y, xt, yt)"
    and "prepare_datasets env x y xt yt True [] = Inr (tr, va, te)"
    and "channels \<noteq> []"
  shows "train_vanilla_cnn env channels k out ''mithb'' max_epochs =
           and_then
             (lib (trainer_fit env (make_trainer env max_epochs)
                     (vanillaCNN_init channels k (last channels * out) 5)
                     (train_loader_of tr) (val_loader_of va)))
             (\<lambda>trained. Inr (trained, make_trainer env max_epochs))"
  using assms by (simp add: train_vanilla_cnn_def last_item_nonempty Let_def)

lemma train_vanilla_cnn_ptbdb:
  assumes "load_PTB_dataset env = Inr (x, y, xt, yt)"
    and "prepare_datasets env x y xt yt True [(''y_dtype'', PName ''torch.float'')]
           = Inr (tr, va, te)"
    and "channels \<noteq> []"
  shows "train_vanilla_cnn env channels k out ''ptbdb'' max_epochs =
           and_then
             (lib (trainer_fit env (make_trainer env max_epochs)
                     (vanillaCNN_init channels k (last channels * out) 2)
                     (train_loader_of tr) (val_loader_of va)))
             (\<lambda>trained. Inr (trained, make_trainer env max_epochs))"
  using assms by (simp add: train_vanilla_cnn_def last_item_nonempty Let_def)

lemma last_item_Inr: "last_item xs = Inr c \<longleftrightarrow> xs \<noteq> [] \<and> c = last xs"
  by (cases xs) (auto simp: last_item_def)

lemma train_vanilla_cnn_Inr:
  assumes "train_vanilla_cnn env channels k out dataset max_epochs = Inr (m, t)"
  shows "t = make_trainer env max_epochs
       \<and> (dataset = ''mithb'' \<or> dataset = ''ptbdb'')
       \<and> channels \<noteq> []
       \<and> (\<exists>tr va. trainer_fit env t
                     (vanillaCNN_init channels k (last channels * out)
                        (if dataset = ''mithb'' then 5 else 2))
                     (train_loader_of tr) (val_loader_of va) = Inr m)"
proof -
  consider "dataset = ''mithb''" | "dataset = ''ptbdb''"
    | "dataset \<noteq> ''mithb''" "dataset \<noteq> ''ptbdb''" by blast
  then show ?thesis
  proof cases
    case 1
    with assms show ?thesis
      unfolding train_vanilla_cnn_def
      by (auto simp: and_then_eq_Inr lib_eq_Inr last_item_Inr Let_def split: prod.splits)
  next
    case 2
    with assms show ?thesis
      unfolding train_vanilla_cnn_def
      by (auto simp: and_then_eq_Inr lib_eq_Inr last_item_Inr Let_def split: prod.splits)
  next
    case 3
    with assms show ?thesis
      unfolding train_vanilla_cnn_def by simp
  qed
qed

lemma predict_result:
  assumes "featurizer self = Some f"
    and "keras_predict env f (X_test self) = Inr X_feat"
    and "clf_predict env (clf self) X_feat = Inr pred"
    and "clf_predict_proba env (clf self) X_feat = Inr proba"
  shows "predict env self = Inr (self\<lparr>y_pred := Some pred, y_pred_proba := Some proba\<rparr>)"
  using assms by (simp add: predict_def)

lemma example_init:
  "AutoencoderTree_init example_ae_env ''mithb'' ''same'' = Inr example_tree"
proof -
  have "init_autoencoder example_ae_env = []"
    by (simp add: init_autoencoder_def example_ae_env_def)
  moreover have "ExtraTreesClassifier example_ae_env [(''n_estimators'', PInt 100)] = ()"
    by simp
  ultimately show ?thesis
    unfolding AutoencoderTree_init_def example_load_mithb
    by (simp add: example_tree_def)
qed

lemma example_train: "train example_ae_env example_tree = Inr example_trained"
  by (simp add: train_def example_tree_def example_trained_def example_ae_env_def
      BATCH_SIZE_def EPOCHS_def)

lemma example_cnn_ptbdb:
  "train_vanilla_cnn example_cnn_env [1, 4] 3 185 ''ptbdb'' 15 =
     Inr (\<lparr>net = [(''cnn0'', Conv1d 1 4 3), (''act0'', ReLU)], no_classes = 2,
            fc = Linear 740 1, accuracy = Accuracy\<rparr>,
          PObj ''Trainer'' []
            [(''gpus'', PInt 0), (''max_epochs'', PInt 15),
             (''callbacks'',
                PList [PObj ''EarlyStopping'' []
                         [(''monitor'', PStr ''val_loss''), (''mode'', PStr ''min'')]]),
             (''default_root_dir'', PStr ''saved_models'')])"
  by (simp add: train_vanilla_cnn_def example_cnn_env_def example_ptb_def last_item_def
      vanillaCNN_init_def init_step_def str_nat.simps[of 0] digit_char_def make_trainer_def
      Let_def)

text \<open>
  C2, as stated: \<^verbatim>\<open>train_vanilla_cnn\<close> returns the trained model together with the
  predictions. In the example environment the second component of what it returns is
  the \<^verbatim>\<open>Trainer\<close> object, as the \<^verbatim>\<open>return model, trainer\<close> of the source says.
\<close>

theorem train_vanilla_cnn_returns_trainer:
  "map_sum id snd (train_vanilla_cnn example_cnn_env [1, 4] 3 185 ''ptbdb'' 15) =
     Inr (PObj ''Trainer'' []
            [(''gpus'', PInt 0), (''max_epochs'', PInt 15),
             (''callbacks'',
                PList [PObj ''EarlyStopping'' []
                         [(''monitor'', PStr ''val_loss''), (''mode'', PStr ''min'')]]),
             (''default_root_dir'', PStr ''saved_models'')])"
  by (simp add: example_cnn_ptbdb)

text \<open>
  C2, amended. Whatever \<^verbatim>\<open>train_vanilla_cnn\<close> returns is the pair of the model as
  \<^verbatim>\<open>trainer.fit\<close> left it and the \<^verbatim>\<open>Trainer\<close> object, and for either dataset name it
  does return that pair when the loader, \<^verbatim>\<open>prepare_datasets\<close> and \<^verbatim>\<open>trainer.fit\<close> return
  and \<open>channels\<close> is not empty. \<^verbatim>\<open>AutoencoderTree.train\<close> leaves a featurizer on the
  object, and \<^verbatim>\<open>predict\<close>, on an object with a featurizer, stores the classifier's
  predictions and class probabilities for the encoded test set in \<^verbatim>\<open>y_pred\<close> and
  \<^verbatim>\<open>y_pred_proba\<close>.
\<close>

theorem entry_points_return:
  fixes cenv :: "'d cnn_env" and env :: "('k, 'f, 'c) ae_env"
  shows "(train_vanilla_cnn cenv channels k out dataset max_epochs = Inr (m, t) \<longrightarrow>
            t = make_trainer cenv max_epochs
          \<and> (\<exists>tr va. trainer_fit cenv t
                        (vanillaCNN_init channels k (last channels * out)
                           (if dataset = ''mithb'' then 5 else 2))
                        (train_loader_of tr) (val_loader_of va) = Inr m))
       \<and> (load_arrhythmia_dataset cenv = Inr (x, y, xt, yt)
          \<and> prepare_datasets cenv x y xt yt True [] = Inr (tr1, va1, te1)
          \<and> channels \<noteq> []
          \<and> trainer_fit cenv (make_trainer cenv max_epochs)
                (vanillaCNN_init channels k (last channels * out) 5)
                (train_loader_of tr1) (val_loader_of va1) = Inr m1
          \<longrightarrow> train_vanilla_cnn cenv channels k out ''mithb'' max_epochs
                = Inr (m1, make_trainer cenv max_epochs))
       \<and> (load_PTB_dataset cenv = Inr (x', y', xt', yt')
          \<and> prepare_datasets cenv x' y' xt' yt' True [(''y_dtype'', PName ''torch.float'')]
              = Inr (tr2, va2, te2)
          \<and> channels \<noteq> []
          \<and> trainer_fit cenv (make_trainer cenv max_epochs)
                (vanillaCNN_init channels k (last channels * out) 2)
                (train_loader_of tr2) (val_loader_of va2) = Inr m2
          \<longrightarrow> train_vanilla_cnn cenv channels k out ''ptbdb'' max_epochs
                = Inr (m2, make_trainer cenv max_epochs))
       \<and> (train env self = Inr self1 \<longrightarrow> featurizer self1 \<noteq> None)
       \<and> (featurizer self = Some f
          \<and> keras_predict env f (X_test self) = Inr X_feat
          \<and> clf_predict env (clf self) X_feat = Inr pred
          \<and> clf_predict_proba env (clf self) X_feat = Inr proba
          \<longrightarrow> predict env self = Inr (self\<lparr>y_pred := Some pred, y_pred_proba := Some proba\<rparr>))"
proof -
  have a: "train_vanilla_cnn cenv channels k out dataset max_epochs = Inr (m, t) \<longrightarrow>
            t = make_trainer cenv max_epochs
          \<and> (\<exists>tr va. trainer_fit cenv t
                        (vanillaCNN_init channels k (last channels * out)
                           (if dataset = ''mithb'' then 5 else 2))
                        (train_loader_of tr) (val_loader_of va) = Inr m)"
    using train_vanilla_cnn_Inr[of cenv channels k out dataset max_epochs m t] by blast
  have b: "load_arrhythmia_dataset cenv = Inr (x, y, xt, yt)
          \<and> prepare_datasets cenv x y xt yt True [] = Inr (tr1, va1, te1)
          \<and> channels \<noteq> []
          \<and> trainer_fit cenv (make_trainer cenv max_epochs)
                (vanillaCNN_init channels k (last channels * out) 5)
                (train_loader_of tr1) (val_loader_of va1) = Inr m1
          \<longrightarrow> train_vanilla_cnn cenv channels k out ''mithb'' max_epochs
                = Inr (m1, make_trainer cenv max_epochs)"
    by (simp add: train_vanilla_cnn_mithb)
  have c: "load_PTB_dataset cenv = Inr (x', y', xt', yt')
          \<and> prepare_datasets cenv x' y' xt' yt' True [(''y_dtype'', PName ''torch.float'')]
              = Inr (tr2, va2, te2)
          \<and> channels \<noteq> []
          \<and> trainer_fit cenv (make_trainer cenv max_epochs)
                (vanillaCNN_init channels k (last channels * out) 2)
                (train_loader_of tr2) (val_loader_of va2) = Inr m2
          \<longrightarrow> train_vanilla_cnn cenv channels k out ''ptbdb'' max_epochs
                = Inr (m2, make_trainer cenv max_epochs)"
    by (simp add: train_vanilla_cnn_ptbdb)
  have d: "train env self = Inr self1 \<longrightarrow> featurizer self1 \<noteq> None"
    unfolding train_def by (auto simp: and_then_eq_Inr lib_eq_Inr Let_def)
  have e: "featurizer self = Some f
          \<and> keras_predict env f (X_test self) = Inr X_feat
          \<and> clf_predict env (clf self) X_feat = Inr pred
          \<and> clf_predict_proba env (clf self) X_feat = Inr proba
          \<longrightarrow> predict env self = Inr (self\<lparr>y_pred := Some pred, y_pred_proba := Some proba\<rparr>)"
    by (simp add: predict_result)
  show ?thesis
    apply (rule conjI[OF a])
    apply (rule conjI[OF b])
    apply (rule conjI[OF c])
    apply (rule conjI[OF d])
    apply (rule e)
    done
qed

lemma example_predict:
  "predict example_ae_env example_trained =
     Inr (example_trained\<lparr>y_pred := Some \<lparr>shape = [1], data = [0]\<rparr>,
                         y_pred_proba := Some \<lparr>shape = [1, 3, 1], data = [5, 6, 0]\<rparr>\<rparr>)"
  by (simp add: predict_def example_trained_def example_tree_def example_ae_env_def)

theorem entry_points_return_witness:
  "train_vanilla_cnn example_cnn_env [1, 4] 3 185 ''ptbdb'' 15 =
     Inr (vanillaCNN_init [1, 4] 3 (last [1, 4] * 185) 2, make_trainer example_cnn_env 15)
   \<and> train example_ae_env example_tree = Inr example_trained
   \<and> featurizer example_trained \<noteq> None
   \<and> predict example_ae_env example_trained =
       Inr (example_trained\<lparr>y_pred := Some \<lparr>shape = [1], data = [0]\<rparr>,
                           y_pred_proba := Some \<lparr>shape = [1, 3, 1], data = [5, 6, 0]\<rparr>\<rparr>)"
proof -
  note t = entry_points_return[where cenv = example_cnn_env and channels = "[1, 4]"
      and k = 3 and out = 185 and max_epochs = 15
      and x' = "\<lparr>shape = [2, 2, 1], data = [7, 8, 9, 10]\<rparr>"
      and y' = "\<lparr>shape = [2], data = [1, 0]\<rparr>"
      and xt' = "\<lparr>shape = [1, 2, 1], data = [11, 12]\<rparr>"
      and yt' = "\<lparr>shape = [1], data = [1]\<rparr>"
      and ?tr2.0 = "(\<lparr>shape = [2, 2, 1], data = [7, 8, 9, 10]\<rparr>, \<lparr>shape = [2], data = [1, 0]\<rparr>)"
      and ?va2.0 = "(\<lparr>shape = [2, 2, 1], data = [7, 8, 9, 10]\<rparr>, \<lparr>shape = [2], data = [1, 0]\<rparr>)"
      and ?te2.0 = "(\<lparr>shape = [1, 2, 1], data = [11, 12]\<rparr>, \<lparr>shape = [1], data = [1]\<rparr>)"
      and ?m2.0 = "vanillaCNN_init [1, 4] 3 (last [1, 4] * 185) 2"
      and env = example_ae_env and self = example_trained
      and f = "()" and X_feat = "\<lparr>shape = [1, 3, 1], data = [5, 6, 0]\<rparr>"
      and pred = "\<lparr>shape = [1], data = [0]\<rparr>"
      and proba = "\<lparr>shape = [1, 3, 1], data = [5, 6, 0]\<rparr>"]
  have env: "load_PTB_dataset example_cnn_env =
      Inr (\<lparr>shape = [2, 2, 1], data = [7, 8, 9, 10]\<rparr>, \<lparr>shape = [2], data = [1, 0]\<rparr>,
           \<lparr>shape = [1, 2, 1], data = [11, 12]\<rparr>, \<lparr>shape = [1], data = [1]\<rparr>)"
    "prepare_datasets example_cnn_env a b c d e kw = Inr ((a, b), (a, b), (c, d))"
    "trainer_fit example_cnn_env tr mo tl vl = Inr mo" for a b c d e kw tr mo tl vl
    by (simp_all add: example_cnn_env_def example_ptb_def)
  have ae: "featurizer example_trained = Some ()"
    "X_test example_trained = \<lparr>shape = [1, 3, 1], data = [5, 6, 0]\<rparr>"
    "keras_predict example_ae_env f X = Inr X"
    "clf_predict example_ae_env c X = Inr \<lparr>shape = [hd (shape X)], data = replicate (hd (shape X)) 0\<rparr>"
    "clf_predict_proba example_ae_env c X = Inr X" for f c X
    by (simp_all add: example_trained_def example_tree_def example_ae_env_def)
  from t have cnn: "train_vanilla_cnn example_cnn_env [1, 4] 3 185 ''ptbdb'' 15 =
     Inr (vanillaCNN_init [1, 4] 3 (last [1, 4] * 185) 2, make_trainer example_cnn_env 15)"
    by (simp add: env)
  from t have pr: "predict example_ae_env example_trained =
       Inr (example_trained\<lparr>y_pred := Some \<lparr>shape = [1], data = [0]\<rparr>,
                           y_pred_proba := Some \<lparr>shape = [1, 3, 1], data = [5, 6, 0]\<rparr>\<rparr>)"
    by (simp add: ae)
  from ae(1) have ft: "featurizer example_trained \<noteq> None" by simp
  show ?thesis by (intro conjI cnn example_train ft pr)
qed

text \<open>
  C3. \<^verbatim>\<open>AutoencoderTree.train\<close> is to pass its \<^verbatim>\<open>fit\<close> call a batch size, an epoch
  count and the early-stopping patience \<^verbatim>\<open>EARLY_STOPPING_PATIENCE\<close>. The module declares
  that constant beside \<^verbatim>\<open>BATCH_SIZE\<close> and \<^verbatim>\<open>EPOCHS\<close> and never reads it. In the
  example environment the Keras model records the keyword arguments of every \<^verbatim>\<open>fit\<close>
  call it receives: there is one call, with the batch size, the shuffle flag and the
  epoch count, and no patience.
\<close>

theorem autoencoder_fit_without_patience:
  "map_sum id autoencoder (train example_ae_env example_tree) =
     Inr [[(''batch_size'', PInt 128), (''shuffle'', PBool True), (''epochs'', PInt 3)]]"
  unfolding example_train by (simp add: example_trained_def)

end
